theory Spec2Isabelle
  imports Main
begin

section \<open>JavaScript values, function values and the call trace\<close>

text \<open>
  The components are React function components written in TypeScript. A render is a
  pure function from the props (and, where the component has hooks, the hook state) to
  the props it hands to the primitive of the UI library. Optional props are options:
  \<open>None\<close> is a key that is absent from the props object.
\<close>

datatype jsval = Undefined | JBool bool | JNum int | JStr string

text \<open>
  A function value is either a function the environment supplies (a prop of the caller,
  a handler of the form context), known by its identity, or an arrow function with an
  empty body that the component itself writes (\<^verbatim>\<open>() => {}\<close>, \<^verbatim>\<open>() => null\<close>).
  Such an arrow is evaluated afresh in every render.
\<close>

datatype fn = Ext nat | Noop

text \<open>The calls that reach the environment, in order, with their arguments.\<close>

type_synonym trace = "(nat \<times> jsval list) list"

fun invoke :: "fn \<Rightarrow> jsval list \<Rightarrow> trace \<Rightarrow> trace" where
  "invoke (Ext f) args t = t @ [(f, args)]"
| "invoke Noop args t = t"

text \<open>Truthiness of a value of type \<^verbatim>\<open>string | undefined\<close>.\<close>

definition truthy_string :: "string option \<Rightarrow> bool" where
  "truthy_string s = (case s of None \<Rightarrow> False | Some x \<Rightarrow> x \<noteq> [])"

text \<open>Object spread, one key: the later object wins where it has the key.\<close>

definition spread :: "'a option \<Rightarrow> 'a option \<Rightarrow> 'a option" where
  "spread earlier later = (case later of Some v \<Rightarrow> Some v | None \<Rightarrow> earlier)"

section \<open>The form context and the optional binding\<close>

record field_input_props =
  fi_name :: string
  fi_value :: jsval
  fi_onChange :: fn
  fi_onBlur :: fn
  fi_checked :: "bool option"

record field_meta_props =
  fm_value :: jsval
  fm_error :: "string option"
  fm_touched :: bool
  fm_initialError :: "string option"
  fm_initialTouched :: bool
  fm_initialValue :: jsval

text \<open>
  \<^verbatim>\<open>getFieldProps\<close> is called with the name, or with \<^verbatim>\<open>{ name, type }\<close>.
\<close>

datatype field_arg = FieldName string | FieldConfig string string

record formik_context =
  getFieldProps :: "field_arg \<Rightarrow> field_input_props"
  getFieldMeta :: "string \<Rightarrow> field_meta_props"
  setFieldValue :: fn

text \<open>
  The guard \<^verbatim>\<open>formik && name\<close>: the context is there and the name is a truthy
  string, that is a string that is not empty.
\<close>

definition formik_and_name ::
  "formik_context option \<Rightarrow> string option \<Rightarrow> (formik_context \<times> string) option" where
  "formik_and_name formik name =
     (case formik of
        None \<Rightarrow> None
      | Some ctx \<Rightarrow>
          (case name of
             None \<Rightarrow> None
           | Some n \<Rightarrow> if n = [] then None else Some (ctx, n)))"

text \<open>\<^verbatim>\<open>name || ''\<close>\<close>

definition name_or_empty :: "string option \<Rightarrow> string" where
  "name_or_empty name = (case name of None \<Rightarrow> [] | Some n \<Rightarrow> n)"

text \<open>
  The field object of the \<^verbatim>\<open>else\<close> branch. The text controls write no
  \<^verbatim>\<open>checked\<close> key, the checkbox and the switch write \<^verbatim>\<open>checked: false\<close>.
\<close>

definition default_field :: "string option \<Rightarrow> bool option \<Rightarrow> field_input_props" where
  "default_field name chk =
     \<lparr>fi_name = name_or_empty name, fi_value = JStr [], fi_onChange = Noop,
      fi_onBlur = Noop, fi_checked = chk\<rparr>"

definition default_meta :: field_meta_props where
  "default_meta =
     \<lparr>fm_value = JStr [], fm_error = None, fm_touched = False,
      fm_initialError = None, fm_initialTouched = False, fm_initialValue = JStr []\<rparr>"

text \<open>\<^verbatim>\<open>const showError = Boolean(meta.touched && meta.error)\<close>\<close>

definition showError :: "field_meta_props \<Rightarrow> bool" where
  "showError meta = (fm_touched meta \<and> truthy_string (fm_error meta))"

subsection \<open>Props of the caller and props of the rendered control\<close>

text \<open>
  The rest props \<^verbatim>\<open>...props\<close> of a wrapper: the keys that meet a key of the field
  object, and the others, which pass through untouched.
\<close>

record control_props =
  p_value :: "jsval option"
  p_onChange :: "fn option"
  p_onBlur :: "fn option"
  p_checked :: "bool option"
  p_other :: "(string \<times> jsval) list"

record text_field_props = control_props +
  p_error :: "bool option"
  p_helperText :: "string option"

text \<open>The props that the input primitive receives.\<close>

record control_el =
  el_name :: "string option"
  el_value :: "jsval option"
  el_onChange :: "fn option"
  el_onBlur :: "fn option"
  el_checked :: "bool option"
  el_other :: "(string \<times> jsval) list"

text \<open>\<^verbatim>\<open>{...field} {...props}\<close>\<close>

definition spread_field_props ::
  "field_input_props \<Rightarrow> 'a control_props_scheme \<Rightarrow> control_el" where
  "spread_field_props field props =
     \<lparr>el_name = Some (fi_name field),
      el_value = spread (Some (fi_value field)) (p_value props),
      el_onChange = spread (Some (fi_onChange field)) (p_onChange props),
      el_onBlur = spread (Some (fi_onBlur field)) (p_onBlur props),
      el_checked = spread (fi_checked field) (p_checked props),
      el_other = p_other props\<rparr>"

text \<open>\<^verbatim>\<open>field.checked || false\<close>\<close>

definition checked_or_false :: "field_input_props \<Rightarrow> bool" where
  "checked_or_false field = (case fi_checked field of None \<Rightarrow> False | Some b \<Rightarrow> b)"

subsection \<open>FormikTextField\<close>

definition FormikTextField_field ::
  "formik_context option \<Rightarrow> string option \<Rightarrow> field_input_props" where
  "FormikTextField_field formik name =
     (case formik_and_name formik name of
        Some (ctx, n) \<Rightarrow> getFieldProps ctx (FieldName n)
      | None \<Rightarrow> default_field name None)"

definition FormikTextField_meta ::
  "formik_context option \<Rightarrow> string option \<Rightarrow> field_meta_props" where
  "FormikTextField_meta formik name =
     (case formik_and_name formik name of
        Some (ctx, n) \<Rightarrow> getFieldMeta ctx n
      | None \<Rightarrow> default_meta)"

record text_field_out =
  tf_control :: control_el
  tf_error :: "bool option"
  tf_helperText :: "string option"

definition FormikTextField ::
  "formik_context option \<Rightarrow> string option \<Rightarrow> text_field_props \<Rightarrow> text_field_out" where
  "FormikTextField formik name props =
     (let field = FormikTextField_field formik name;
          meta = FormikTextField_meta formik name
      in \<lparr>tf_control = (spread_field_props field props)\<lparr>el_name := name\<rparr>,
          tf_error = (if showError meta then Some True else p_error props),
          tf_helperText = (if showError meta then fm_error meta else p_helperText props)\<rparr>)"

subsection \<open>FormikCheckbox\<close>

definition FormikCheckbox_field ::
  "formik_context option \<Rightarrow> string option \<Rightarrow> field_input_props" where
  "FormikCheckbox_field formik name =
     (case formik_and_name formik name of
        Some (ctx, n) \<Rightarrow> getFieldProps ctx (FieldConfig n ''checkbox'')
      | None \<Rightarrow> default_field name (Some False))"

definition FormikCheckbox_meta ::
  "formik_context option \<Rightarrow> string option \<Rightarrow> field_meta_props" where
  "FormikCheckbox_meta formik name =
     (case formik_and_name formik name of
        Some (ctx, n) \<Rightarrow> getFieldMeta ctx n
      | None \<Rightarrow> default_meta)"

text \<open>
  The \<^verbatim>\<open>FormControl\<close> with its error flag, the control inside the label and the
  helper text, which is there when \<^verbatim>\<open>showError\<close> holds. The \<^verbatim>\<open>sx\<close> props are
  styling and are left out.
\<close>

record checkbox_out =
  cb_formControl_error :: bool
  cb_control :: control_el
  cb_label :: "string option"
  cb_helperText :: "string option"

definition FormikCheckbox ::
  "formik_context option \<Rightarrow> string option \<Rightarrow> string option \<Rightarrow> control_props \<Rightarrow> checkbox_out" where
  "FormikCheckbox formik name label props =
     (let field = FormikCheckbox_field formik name;
          meta = FormikCheckbox_meta formik name
      in \<lparr>cb_formControl_error = showError meta,
          cb_control = (spread_field_props field props)
             \<lparr>el_checked := Some (checked_or_false field), el_name := name\<rparr>,
          cb_label = label,
          cb_helperText = (if showError meta then fm_error meta else None)\<rparr>)"

subsection \<open>FormikSwitch\<close>

definition FormikSwitch_field ::
  "formik_context option \<Rightarrow> string option \<Rightarrow> field_input_props" where
  "FormikSwitch_field formik name =
     (case formik_and_name formik name of
        Some (ctx, n) \<Rightarrow> getFieldProps ctx (FieldConfig n ''checkbox'')
      | None \<Rightarrow> default_field name (Some False))"

definition FormikSwitch_meta ::
  "formik_context option \<Rightarrow> string option \<Rightarrow> field_meta_props" where
  "FormikSwitch_meta formik name =
     (case formik_and_name formik name of
        Some (ctx, n) \<Rightarrow> getFieldMeta ctx n
      | None \<Rightarrow> default_meta)"

text \<open>
  \<^verbatim>\<open><FormControl error={showError} {...FormControlProps}>\<close>: the props of the caller
  for the form control are spread after the error flag.
\<close>

record form_control_props =
  fcp_error :: "bool option"
  fcp_other :: "(string \<times> jsval) list"

text \<open>
  \<^verbatim>\<open>sw_control\<close> is the \<^verbatim>\<open>Switch\<close> element that the wrapper builds and hands to
  the label as its \<^verbatim>\<open>control\<close>; \<^verbatim>\<open>label\<close> and \<^verbatim>\<open>labelPlacement\<close> are the
  values written on the label, and \<^verbatim>\<open>sw_formControlLabel_rest\<close> are the keys of
  \<^verbatim>\<open>FormControlLabelProps\<close>, which are spread on the label after them.
\<close>

record switch_out =
  sw_formControl_error :: bool
  sw_formControl_other :: "(string \<times> jsval) list"
  sw_control :: control_el
  sw_label :: "string option"
  sw_labelPlacement :: string
  sw_formControlLabel_rest :: "(string \<times> jsval) list"
  sw_helperText :: "string option"

definition FormikSwitch ::
  "formik_context option \<Rightarrow> string option \<Rightarrow> string option \<Rightarrow> string option \<Rightarrow>
   form_control_props option \<Rightarrow> (string \<times> jsval) list option \<Rightarrow> control_props \<Rightarrow>
   switch_out" where
  "FormikSwitch formik name label labelPlacement FormControlProps FormControlLabelProps props =
     (let field = FormikSwitch_field formik name;
          meta = FormikSwitch_meta formik name
      in \<lparr>sw_formControl_error =
            (case FormControlProps of
               None \<Rightarrow> showError meta
             | Some fc \<Rightarrow> (case fcp_error fc of None \<Rightarrow> showError meta | Some e \<Rightarrow> e)),
          sw_formControl_other =
            (case FormControlProps of None \<Rightarrow> [] | Some fc \<Rightarrow> fcp_other fc),
          sw_control = (spread_field_props field props)
             \<lparr>el_checked := Some (checked_or_false field), el_name := name\<rparr>,
          sw_label = label,
          sw_labelPlacement = (case labelPlacement of None \<Rightarrow> ''end'' | Some lp \<Rightarrow> lp),
          sw_formControlLabel_rest =
            (case FormControlLabelProps of None \<Rightarrow> [] | Some l \<Rightarrow> l),
          sw_helperText = (if showError meta then fm_error meta else None)\<rparr>)"

subsection \<open>FormikCustomTextarea\<close>

definition FormikCustomTextarea_field ::
  "formik_context option \<Rightarrow> string option \<Rightarrow> field_input_props" where
  "FormikCustomTextarea_field formik name =
     (case formik_and_name formik name of
        Some (ctx, n) \<Rightarrow> getFieldProps ctx (FieldName n)
      | None \<Rightarrow> default_field name None)"

definition FormikCustomTextarea_meta ::
  "formik_context option \<Rightarrow> string option \<Rightarrow> field_meta_props" where
  "FormikCustomTextarea_meta formik name =
     (case formik_and_name formik name of
        Some (ctx, n) \<Rightarrow> getFieldMeta ctx n
      | None \<Rightarrow> default_meta)"

text \<open>
  The textarea with \<^verbatim>\<open>aria-invalid={showError}\<close>, whether the error style of the
  caller is applied to it, and the paragraph with the error text.
\<close>

record textarea_out =
  ta_control :: control_el
  ta_errorStyle_applied :: bool
  ta_aria_invalid :: bool
  ta_errorText :: "string option"

definition FormikCustomTextarea ::
  "formik_context option \<Rightarrow> string option \<Rightarrow> control_props \<Rightarrow> textarea_out" where
  "FormikCustomTextarea formik name props =
     (let field = FormikCustomTextarea_field formik name;
          meta = FormikCustomTextarea_meta formik name
      in \<lparr>ta_control = (spread_field_props field props)\<lparr>el_name := name\<rparr>,
          ta_errorStyle_applied = showError meta,
          ta_aria_invalid = showError meta,
          ta_errorText = (if showError meta then fm_error meta else None)\<rparr>)"

subsection \<open>FormikRadioGroup\<close>

definition FormikRadioGroup_field ::
  "formik_context option \<Rightarrow> string option \<Rightarrow> field_input_props" where
  "FormikRadioGroup_field formik name =
     (case formik_and_name formik name of
        Some (ctx, n) \<Rightarrow> getFieldProps ctx (FieldName n)
      | None \<Rightarrow> default_field name None)"

definition FormikRadioGroup_meta ::
  "formik_context option \<Rightarrow> string option \<Rightarrow> field_meta_props" where
  "FormikRadioGroup_meta formik name =
     (case formik_and_name formik name of
        Some (ctx, n) \<Rightarrow> getFieldMeta ctx n
      | None \<Rightarrow> default_meta)"

text \<open>
  The change handler of the radio group is an arrow function of the component:
  \<^verbatim>\<open>(event) => { if (formik && name) formik.setFieldValue(name, event.target.value) }\<close>.
  It is written after the spreads, so it replaces the handler of the field object and
  the one of the caller.
\<close>

definition FormikRadioGroup_onChange ::
  "formik_context option \<Rightarrow> string option \<Rightarrow> jsval \<Rightarrow> trace \<Rightarrow> trace" where
  "FormikRadioGroup_onChange formik name target_value t =
     (case formik_and_name formik name of
        Some (ctx, n) \<Rightarrow> invoke (setFieldValue ctx) [JStr n, target_value] t
      | None \<Rightarrow> t)"

text \<open>
  \<^verbatim>\<open>rg_control\<close> holds the props that the radio group receives from the two spreads;
  its \<^verbatim>\<open>el_onChange\<close> is \<open>None\<close>, since the handler of the radio group is always
  \<^verbatim>\<open>FormikRadioGroup_onChange\<close>. The props for the label, the radios and the helper
  text are pass-through and left out.
\<close>

record radio_group_out =
  rg_formControl_error :: bool
  rg_formControl_other :: "(string \<times> jsval) list"
  rg_label :: "string option"
  rg_control :: control_el
  rg_row :: bool
  rg_options :: "(string \<times> string) list"
  rg_helperText :: "string option"

definition FormikRadioGroup ::
  "formik_context option \<Rightarrow> string option \<Rightarrow> string option \<Rightarrow> (string \<times> string) list \<Rightarrow>
   bool option \<Rightarrow> form_control_props option \<Rightarrow> control_props \<Rightarrow> radio_group_out" where
  "FormikRadioGroup formik name label options row FormControlProps radioGroupProps =
     (let field = FormikRadioGroup_field formik name;
          meta = FormikRadioGroup_meta formik name
      in \<lparr>rg_formControl_error =
            (case FormControlProps of
               None \<Rightarrow> showError meta
             | Some fc \<Rightarrow> (case fcp_error fc of None \<Rightarrow> showError meta | Some e \<Rightarrow> e)),
          rg_formControl_other =
            (case FormControlProps of None \<Rightarrow> [] | Some fc \<Rightarrow> fcp_other fc),
          rg_label = (if truthy_string label then label else None),
          rg_control = (spread_field_props field radioGroupProps)\<lparr>el_onChange := None\<rparr>,
          rg_row = (case row of None \<Rightarrow> False | Some r \<Rightarrow> r),
          rg_options = options,
          rg_helperText = (if showError meta then fm_error meta else None)\<rparr>)"

section \<open>Modal\<close>

subsection \<open>Props and the rendered tree\<close>

text \<open>A \<^verbatim>\<open>ReactNode\<close> of the caller.\<close>

datatype rnode = RNull | RText string | RElem string "rnode list"

record modal_props =
  isOpen :: bool
  backdropClassName :: "string option"
  modalClassName :: "string option"
  bodyClassName :: "string option"
  headerClassName :: "string option"
  footerClassName :: "string option"
  onOpen :: "fn option"
  onClose :: "fn option"
  headerComponent :: "(string \<Rightarrow> fn \<Rightarrow> rnode) option"
  bodyComponent :: "(rnode \<Rightarrow> fn \<Rightarrow> rnode) option"
  footerComponent :: "(fn \<Rightarrow> fn \<Rightarrow> rnode) option"
  isConfirmationModal :: "bool option"
  onConfirm :: "fn option"
  onCancel :: "fn option"
  confirmLabel :: "string option"
  cancelLabel :: "string option"
  title :: "string option"
  children :: "rnode option"
  onRequestClose :: "fn option"
  requestCloseOnEscClick :: "bool option"
  requestCloseOnBackdropClick :: "bool option"

text \<open>Default values of the destructured props.\<close>

definition fn_or_noop :: "fn option \<Rightarrow> fn" where
  "fn_or_noop f = (case f of None \<Rightarrow> Noop | Some g \<Rightarrow> g)"

definition or_default :: "'a \<Rightarrow> 'a option \<Rightarrow> 'a" where
  "or_default d v = (case v of None \<Rightarrow> d | Some x \<Rightarrow> x)"

text \<open>
  The default header, body and footer are the components \<^verbatim>\<open>Header\<close>,
  \<^verbatim>\<open>Body\<close> and \<^verbatim>\<open>Footer\<close>; a class name that is absent falls back to the one
  of the style sheet.
\<close>

datatype header_node = CustomHeader rnode | Header "string option" string fn

datatype body_node = CustomBody rnode | Body "string option" rnode

datatype footer_node = CustomFooter rnode | Footer "string option" fn fn string string | NoFooter

text \<open>
  The click handler of the backdrop is the arrow function
  \<^verbatim>\<open>() => requestCloseOnBackdropClick && onRequestClose()\<close>; the tree keeps the two
  values it closes over.
\<close>

record modal_tree =
  backdrop_class :: "string option"
  backdrop_flag :: bool
  backdrop_onRequestClose :: fn
  modal_class :: "string option"
  header :: header_node
  body :: body_node
  footer :: footer_node

text \<open>
  The render function. Its result is the portal into \<^verbatim>\<open>document.body\<close>, or
  \<^verbatim>\<open>false\<close> (here \<open>None\<close>) when the modal is closed or there is no window.
\<close>

definition Modal :: "bool \<Rightarrow> modal_props \<Rightarrow> modal_tree option" where
  "Modal window p =
     (let requestClose = fn_or_noop (onRequestClose p);
          ttl = or_default [] (title p);
          kids = or_default RNull (children p);
          confirm = fn_or_noop (onConfirm p);
          cancel = fn_or_noop (onCancel p);
          hd_node = (case headerComponent p of
                       Some h \<Rightarrow> CustomHeader (h ttl requestClose)
                     | None \<Rightarrow> Header (headerClassName p) ttl requestClose);
          bd_node = (case bodyComponent p of
                       Some b \<Rightarrow> CustomBody (b kids requestClose)
                     | None \<Rightarrow> Body (bodyClassName p) kids);
          ft_node = (case footerComponent p of
                       Some f \<Rightarrow> CustomFooter (f confirm cancel)
                     | None \<Rightarrow>
                         if or_default False (isConfirmationModal p)
                         then Footer (footerClassName p) confirm cancel
                                (or_default ''Confirm'' (confirmLabel p))
                                (or_default ''Cancel'' (cancelLabel p))
                         else NoFooter)
      in if isOpen p \<and> window
         then Some \<lparr>backdrop_class = backdropClassName p,
                    backdrop_flag = or_default True (requestCloseOnBackdropClick p),
                    backdrop_onRequestClose = requestClose,
                    modal_class = modalClassName p,
                    header = hd_node, body = bd_node, footer = ft_node\<rparr>
         else None)"

subsection \<open>The two effects\<close>

text \<open>
  The first effect, with dependencies \<^verbatim>\<open>[isOpen, onOpen, onClose]\<close>:
  \<^verbatim>\<open>if (!isOpen && onClose) onClose(); if (isOpen && onOpen) onOpen();\<close>
\<close>

definition Modal_effect_openClose :: "modal_props \<Rightarrow> trace \<Rightarrow> trace" where
  "Modal_effect_openClose p t =
     (let t1 = (case onClose p of
                  Some f \<Rightarrow> if \<not> isOpen p then invoke f [] t else t
                | None \<Rightarrow> t)
      in (case onOpen p of
            Some f \<Rightarrow> if isOpen p then invoke f [] t1 else t1
          | None \<Rightarrow> t1))"

text \<open>
  The listener that the second effect registers closes over \<^verbatim>\<open>isOpen\<close>,
  \<^verbatim>\<open>requestCloseOnEscClick\<close> and \<^verbatim>\<open>onRequestClose\<close> of its render. Each run of
  the effect makes a new function object; \<^verbatim>\<open>cl_id\<close> is its identity.
\<close>

record close_listener =
  cl_id :: nat
  cl_isOpen :: bool
  cl_requestCloseOnEscClick :: bool
  cl_onRequestClose :: fn

definition closeListener :: "close_listener \<Rightarrow> string \<Rightarrow> trace \<Rightarrow> trace" where
  "closeListener l key t =
     (if cl_isOpen l \<and> key = ''Escape'' \<and> cl_requestCloseOnEscClick l
      then invoke (cl_onRequestClose l) [] t
      else t)"

subsection \<open>The mounted component and the document\<close>

text \<open>
  What stays between two renders of one mounted \<^verbatim>\<open>Modal\<close>, together with the part
  of the document it touches: the props of the last render (from which the effects'
  dependencies are read), the listener that the cleanup of the second effect will remove,
  the \<^verbatim>\<open>keydown\<close> listeners of the document, the content of the portal, and the calls
  made so far. One step is a render with its commit and its effects.
\<close>

record modal_state =
  window_defined :: bool
  prev :: "modal_props option"
  cleanup :: "nat option"
  keydown_listeners :: "close_listener list"
  portal :: "modal_tree option"
  calls :: trace
  next_id :: nat

definition initial :: "bool \<Rightarrow> modal_state" where
  "initial window =
     \<lparr>window_defined = window, prev = None, cleanup = None, keydown_listeners = [],
      portal = None, calls = [], next_id = 0\<rparr>"

text \<open>
  \<^verbatim>\<open>Object.is\<close> on the function values of two different renders. The default
  \<^verbatim>\<open>() => null\<close> is a new object in each render, so it never equals the one before.
\<close>

fun same_fn :: "fn \<Rightarrow> fn \<Rightarrow> bool" where
  "same_fn (Ext a) (Ext b) = (a = b)"
| "same_fn _ _ = False"

fun same_fn_opt :: "fn option \<Rightarrow> fn option \<Rightarrow> bool" where
  "same_fn_opt None None = True"
| "same_fn_opt (Some f) (Some g) = same_fn f g"
| "same_fn_opt _ _ = False"

definition openClose_deps_changed :: "modal_props \<Rightarrow> modal_props \<Rightarrow> bool" where
  "openClose_deps_changed q p =
     (\<not> (isOpen q = isOpen p \<and> same_fn_opt (onOpen q) (onOpen p)
          \<and> same_fn_opt (onClose q) (onClose p)))"

definition listener_deps_changed :: "modal_props \<Rightarrow> modal_props \<Rightarrow> bool" where
  "listener_deps_changed q p =
     (\<not> (isOpen q = isOpen p
          \<and> or_default True (requestCloseOnEscClick q) = or_default True (requestCloseOnEscClick p)
          \<and> same_fn (fn_or_noop (onRequestClose q)) (fn_or_noop (onRequestClose p))))"

text \<open>
  The second effect, with dependencies
  \<^verbatim>\<open>[isOpen, requestCloseOnEscClick, onRequestClose]\<close>: without a window it returns at
  once and leaves no cleanup; otherwise it adds the listener to the document and returns
  the cleanup that removes it.
\<close>

definition Modal_effect_keydown :: "modal_props \<Rightarrow> modal_state \<Rightarrow> modal_state" where
  "Modal_effect_keydown p s =
     (if \<not> window_defined s then s\<lparr>cleanup := None\<rparr>
      else
        let l = \<lparr>cl_id = next_id s, cl_isOpen = isOpen p,
                 cl_requestCloseOnEscClick = or_default True (requestCloseOnEscClick p),
                 cl_onRequestClose = fn_or_noop (onRequestClose p)\<rparr>
        in s\<lparr>keydown_listeners := keydown_listeners s @ [l],
              cleanup := Some (cl_id l),
              next_id := Suc (next_id s)\<rparr>)"

definition run_cleanup :: "modal_state \<Rightarrow> modal_state" where
  "run_cleanup s =
     (case cleanup s of
        None \<Rightarrow> s
      | Some i \<Rightarrow>
          s\<lparr>keydown_listeners := filter (\<lambda>l. cl_id l \<noteq> i) (keydown_listeners s),
            cleanup := None\<rparr>)"

text \<open>
  One render of the mounted component: the portal is committed, then the cleanups of the
  effects whose dependencies changed run, then these effects in their order. On the first
  render both effects run.
\<close>

definition render :: "modal_props \<Rightarrow> modal_state \<Rightarrow> modal_state" where
  "render p s =
     (let s1 = s\<lparr>portal := Modal (window_defined s) p\<rparr>
      in (case prev s of
            None \<Rightarrow>
              (Modal_effect_keydown p
                 (s1\<lparr>calls := Modal_effect_openClose p (calls s1)\<rparr>))\<lparr>prev := Some p\<rparr>
          | Some q \<Rightarrow>
              (let s2 = (if listener_deps_changed q p then run_cleanup s1 else s1);
                   s3 = (if openClose_deps_changed q p
                         then s2\<lparr>calls := Modal_effect_openClose p (calls s2)\<rparr> else s2);
                   s4 = (if listener_deps_changed q p then Modal_effect_keydown p s3 else s3)
               in s4\<lparr>prev := Some p\<rparr>)))"

definition unmount :: "modal_state \<Rightarrow> modal_state" where
  "unmount s = (run_cleanup s)\<lparr>portal := None, prev := None\<rparr>"

text \<open>A sequence of renders, the first of which mounts the component.\<close>

definition renders :: "modal_props list \<Rightarrow> modal_state \<Rightarrow> modal_state" where
  "renders ps s = foldl (\<lambda>st p. render p st) s ps"

text \<open>The document dispatches a \<^verbatim>\<open>keydown\<close> event to its listeners in order.\<close>

definition dispatch_keydown :: "string \<Rightarrow> modal_state \<Rightarrow> modal_state" where
  "dispatch_keydown key s =
     s\<lparr>calls := foldl (\<lambda>t l. closeListener l key t) (calls s) (keydown_listeners s)\<rparr>"

text \<open>
  A click on the backdrop. There is a backdrop to click only while the portal is in the
  document.
\<close>

definition click_backdrop :: "modal_state \<Rightarrow> modal_state option" where
  "click_backdrop s =
     (case portal s of
        None \<Rightarrow> None
      | Some tree \<Rightarrow>
          Some (s\<lparr>calls := (if backdrop_flag tree
                             then invoke (backdrop_onRequestClose tree) [] (calls s)
                             else calls s)\<rparr>))"

section \<open>CustomBreadcrumb\<close>

text \<open>
  \<^verbatim>\<open>containerStyle\<close> and \<^verbatim>\<open>linkStyle\<close> are styling and \<^verbatim>\<open>linkProps\<close> goes to the
  router link untouched; they are left out.
\<close>

record breadcrumb_item =
  bi_label :: string
  bi_href :: "string option"

record breadcrumb_props =
  bc_items :: "breadcrumb_item list option"
  bc_separator :: "string option"
  bc_maxItems :: "nat option"
  bc_itemsBeforeCollapse :: "nat option"
  bc_itemsAfterCollapse :: "nat option"
  bc_expandText :: "string option"
  bc_rest :: "(string \<times> jsval) list"

text \<open>A child of the breadcrumbs with its key index: a link, or plain text.\<close>

datatype crumb = LinkCrumb nat string string | TextCrumb nat string

record breadcrumbs_el =
  be_separator :: string
  be_maxItems :: nat
  be_itemsBeforeCollapse :: nat
  be_itemsAfterCollapse :: nat
  be_expandText :: string
  be_rest :: "(string \<times> jsval) list"
  be_children :: "crumb list"

definition empty_items_warning :: string where
  "empty_items_warning =
     ''CustomBreadcrumb: '' @ [CHR 0x22] @ ''items'' @ [CHR 0x22] @
     '' prop is empty. Breadcrumb will not render.''"

definition breadcrumb_child :: "nat \<Rightarrow> nat \<times> breadcrumb_item \<Rightarrow> crumb" where
  "breadcrumb_child len ix =
     (let index = fst ix; item = snd ix; isLastItem = (index = len - 1)
      in (case bi_href item of
            None \<Rightarrow> TextCrumb index (bi_label item)
          | Some h \<Rightarrow>
              if h \<noteq> [] \<and> \<not> isLastItem then LinkCrumb index h (bi_label item)
              else TextCrumb index (bi_label item)))"

text \<open>
  One render, from the props and the hook state \<^verbatim>\<open>isMounted\<close>, to the warnings it
  writes with \<^verbatim>\<open>console.warn\<close> and the element it returns (\<open>None\<close> is \<^verbatim>\<open>null\<close>).
\<close>

definition CustomBreadcrumb ::
  "breadcrumb_props \<Rightarrow> bool \<Rightarrow> string list \<times> breadcrumbs_el option" where
  "CustomBreadcrumb props isMounted =
     (case bc_items props of
        None \<Rightarrow> ([empty_items_warning], None)
      | Some items \<Rightarrow>
          if length items = 0 then ([empty_items_warning], None)
          else if \<not> isMounted then ([], None)
          else ([],
                Some \<lparr>be_separator = or_default ''/'' (bc_separator props),
                      be_maxItems = or_default 8 (bc_maxItems props),
                      be_itemsBeforeCollapse = or_default 1 (bc_itemsBeforeCollapse props),
                      be_itemsAfterCollapse = or_default 1 (bc_itemsAfterCollapse props),
                      be_expandText = or_default ''Show path'' (bc_expandText props),
                      be_rest = bc_rest props,
                      be_children = map (breadcrumb_child (length items)) (enumerate 0 items)\<rparr>))"

text \<open>
  Mounting: the first render has \<^verbatim>\<open>isMounted = false\<close>; the effect then sets it to
  \<^verbatim>\<open>true\<close>, which renders the component once more. The result is every warning
  written and the element of the last render.
\<close>

definition CustomBreadcrumb_mount ::
  "breadcrumb_props \<Rightarrow> string list \<times> breadcrumbs_el option" where
  "CustomBreadcrumb_mount props =
     (let first = CustomBreadcrumb props False;
          second = CustomBreadcrumb props True
      in (fst first @ fst second, snd second))"

section \<open>CustomPagination\<close>

record stack_props =
  sp_spacing :: "int option"
  sp_direction :: "string option"
  sp_justifyContent :: "string option"
  sp_other :: "(string \<times> jsval) list"

text \<open>
  \<^verbatim>\<open>pg_rest\<close> are the remaining props: \<^verbatim>\<open>count\<close>, \<^verbatim>\<open>page\<close>, \<^verbatim>\<open>onChange\<close>,
  \<^verbatim>\<open>itemProps\<close> and \<^verbatim>\<open>stackProps\<close> are taken out by the destructuring.
\<close>

record pagination_props =
  pg_count :: int
  pg_page :: int
  pg_onChange :: "fn option"
  pg_itemProps :: "(string \<times> jsval) list option"
  pg_stackProps :: "stack_props option"
  pg_rest :: "(string \<times> jsval) list"

record pagination_out =
  po_stack_spacing :: int
  po_stack_direction :: string
  po_stack_justifyContent :: string
  po_stack_other :: "(string \<times> jsval) list"
  po_count :: int
  po_page :: int
  po_onChange :: "fn option"
  po_itemProps :: "(string \<times> jsval) list"
  po_rest :: "(string \<times> jsval) list"

definition CustomPagination :: "pagination_props \<Rightarrow> pagination_out" where
  "CustomPagination props =
     \<lparr>po_stack_spacing =
        (case pg_stackProps props of None \<Rightarrow> 2 | Some sp \<Rightarrow> or_default 2 (sp_spacing sp)),
      po_stack_direction =
        (case pg_stackProps props of None \<Rightarrow> ''row'' | Some sp \<Rightarrow> or_default ''row'' (sp_direction sp)),
      po_stack_justifyContent =
        (case pg_stackProps props of
           None \<Rightarrow> ''center'' | Some sp \<Rightarrow> or_default ''center'' (sp_justifyContent sp)),
      po_stack_other = (case pg_stackProps props of None \<Rightarrow> [] | Some sp \<Rightarrow> sp_other sp),
      po_count = pg_count props,
      po_page = pg_page props,
      po_onChange = pg_onChange props,
      po_itemProps = or_default [] (pg_itemProps props),
      po_rest = pg_rest props\<rparr>"

text \<open>
  The pagination primitive calls the change handler it was given with the event and the
  page that was chosen.
\<close>

definition invoke_onChange :: "pagination_out \<Rightarrow> jsval \<Rightarrow> int \<Rightarrow> trace \<Rightarrow> trace" where
  "invoke_onChange el event v t =
     (case po_onChange el of None \<Rightarrow> t | Some f \<Rightarrow> invoke f [event, JNum v] t)"

section \<open>CustomTabs\<close>

text \<open>
  The value of a tab is a string or a number; numbers are taken to be integers.
\<close>

datatype tab_value = TabStr string | TabNum int

fun truthy_tab_value :: "tab_value \<Rightarrow> bool" where
  "truthy_tab_value (TabStr s) = (s \<noteq> [])"
| "truthy_tab_value (TabNum n) = (n \<noteq> 0)"

record tab_item =
  ti_label :: string
  ti_content :: rnode
  ti_value :: tab_value

text \<open>
  \<^verbatim>\<open>tabs_rest_value\<close>, \<^verbatim>\<open>tabs_rest_onChange\<close> and \<^verbatim>\<open>tabs_rest_orientation\<close> are
  keys of the remaining \<^verbatim>\<open>TabsProps\<close>, which are spread on \<^verbatim>\<open>Tabs\<close> last.
  \<^verbatim>\<open>containerStyle\<close>, \<^verbatim>\<open>tabProps\<close> and \<^verbatim>\<open>boxProps\<close> are styling and pass-through.
\<close>

record tabs_props =
  tabs_items :: "tab_item list option"
  tabs_direction :: "string option"
  tabs_rest_value :: "tab_value option"
  tabs_rest_onChange :: "fn option"
  tabs_rest_orientation :: "string option"

datatype js_error = TypeError

text \<open>
  The initial state \<^verbatim>\<open>useState(items[0]?.value || 0)\<close>. Reading \<^verbatim>\<open>items[0]\<close> of
  an \<^verbatim>\<open>items\<close> that is undefined throws.
\<close>

definition CustomTabs_initial :: "tabs_props \<Rightarrow> js_error + tab_value" where
  "CustomTabs_initial props =
     (case tabs_items props of
        None \<Rightarrow> Inl TypeError
      | Some items \<Rightarrow>
          Inr (case items of
                 [] \<Rightarrow> TabNum 0
               | item # _ \<Rightarrow>
                   if truthy_tab_value (ti_value item) then ti_value item else TabNum 0))"

definition handleChange :: "jsval \<Rightarrow> tab_value \<Rightarrow> tab_value \<Rightarrow> tab_value" where
  "handleChange event newValue activeTab = newValue"

datatype tabs_handler = HandleChange | CallerHandler fn

text \<open>
  A child of the content box is \<^verbatim>\<open>false\<close> (here \<open>None\<close>), which renders nothing, or
  the \<^verbatim>\<open>div\<close> with the content of the item.
\<close>

record tabs_out =
  to_stack_direction :: string
  to_tabs_value :: tab_value
  to_tabs_onChange :: tabs_handler
  to_tabs_orientation :: string
  to_tabs :: "(tab_value \<times> string) list"
  to_box_children :: "rnode option list"

definition CustomTabs :: "tabs_props \<Rightarrow> tab_value \<Rightarrow> js_error + tabs_out" where
  "CustomTabs props activeTab =
     (case tabs_items props of
        None \<Rightarrow> Inl TypeError
      | Some items \<Rightarrow>
          (let isVertical = (or_default ''horizontal'' (tabs_direction props) = ''vertical'')
           in Inr \<lparr>to_stack_direction = (if isVertical then ''row'' else ''column''),
                   to_tabs_value = or_default activeTab (tabs_rest_value props),
                   to_tabs_onChange =
                     (case tabs_rest_onChange props of
                        None \<Rightarrow> HandleChange | Some f \<Rightarrow> CallerHandler f),
                   to_tabs_orientation =
                     or_default (if isVertical then ''vertical'' else ''horizontal'')
                       (tabs_rest_orientation props),
                   to_tabs = map (\<lambda>item. (ti_value item, ti_label item)) items,
                   to_box_children =
                     map (\<lambda>item. if ti_value item = activeTab then Some (ti_content item) else None)
                       items\<rparr>))"

text \<open>The first render: the initial state, then the render with it.\<close>

definition CustomTabs_mount :: "tabs_props \<Rightarrow> js_error + tabs_out" where
  "CustomTabs_mount props =
     (case CustomTabs_initial props of
        Inl e \<Rightarrow> Inl e
      | Inr activeTab \<Rightarrow> CustomTabs props activeTab)"

text \<open>The children of the content box that show on the page.\<close>

definition shown :: "rnode option list \<Rightarrow> rnode list" where
  "shown cs = concat (map (\<lambda>c. case c of None \<Rightarrow> [] | Some x \<Rightarrow> [x]) cs)"

section \<open>Values used in the examples\<close>

text \<open>
  A form context whose every field holds \<^verbatim>\<open>a@b.c\<close>, with the error
  \<^verbatim>\<open>required\<close>; every field but the one named \<^verbatim>\<open>untouched\<close> is touched.
\<close>

definition demo_ctx :: formik_context where
  "demo_ctx =
     \<lparr>getFieldProps = (\<lambda>a.
        \<lparr>fi_name = (case a of FieldName n \<Rightarrow> n | FieldConfig n ty \<Rightarrow> n),
         fi_value = JStr ''a@b.c'', fi_onChange = Ext 1, fi_onBlur = Ext 2,
         fi_checked = (case a of FieldName n \<Rightarrow> None | FieldConfig n ty \<Rightarrow> Some True)\<rparr>),
      getFieldMeta = (\<lambda>n.
        \<lparr>fm_value = JStr ''a@b.c'', fm_error = Some ''required'',
         fm_touched = (n \<noteq> ''untouched''),
         fm_initialError = None, fm_initialTouched = False, fm_initialValue = JStr []\<rparr>),
      setFieldValue = Ext 3\<rparr>"

definition no_props :: control_props where
  "no_props =
     \<lparr>p_value = None, p_onChange = None, p_onBlur = None, p_checked = None, p_other = []\<rparr>"

definition no_text_props :: text_field_props where
  "no_text_props =
     \<lparr>p_value = None, p_onChange = None, p_onBlur = None, p_checked = None, p_other = [],
      p_error = None, p_helperText = None\<rparr>"

definition closed_props :: modal_props where
  "closed_props =
     \<lparr>isOpen = False, backdropClassName = None, modalClassName = None, bodyClassName = None,
      headerClassName = None, footerClassName = None, onOpen = Some (Ext 1),
      onClose = Some (Ext 2), headerComponent = None, bodyComponent = None,
      footerComponent = None, isConfirmationModal = None, onConfirm = None, onCancel = None,
      confirmLabel = None, cancelLabel = None, title = None, children = None,
      onRequestClose = Some (Ext 3), requestCloseOnEscClick = None,
      requestCloseOnBackdropClick = None\<rparr>"

definition open_props :: modal_props where
  "open_props = closed_props\<lparr>isOpen := True\<rparr>"

definition content_props :: modal_props where
  "content_props =
     open_props\<lparr>title := Some ''My Modal'',
                children := Some (RText ''Modal content goes here.'')\<rparr>"

definition no_items_props :: breadcrumb_props where
  "no_items_props =
     \<lparr>bc_items = None, bc_separator = None, bc_maxItems = None, bc_itemsBeforeCollapse = None,
      bc_itemsAfterCollapse = None, bc_expandText = None, bc_rest = []\<rparr>"

definition page3_props :: pagination_props where
  "page3_props =
     \<lparr>pg_count = 10, pg_page = 3, pg_onChange = Some (Ext 7), pg_itemProps = None,
      pg_stackProps = None, pg_rest = []\<rparr>"

definition two_tabs :: "tab_item list" where
  "two_tabs =
     [\<lparr>ti_label = ''Tab 1'', ti_content = RText ''Content for Tab 1'', ti_value = TabStr ''tab1''\<rparr>,
      \<lparr>ti_label = ''Tab 2'', ti_content = RText ''Content for Tab 2'', ti_value = TabStr ''tab2''\<rparr>]"

definition tabs_of :: "tab_item list \<Rightarrow> tabs_props" where
  "tabs_of items =
     \<lparr>tabs_items = Some items, tabs_direction = None, tabs_rest_value = None,
      tabs_rest_onChange = None, tabs_rest_orientation = None\<rparr>"

section \<open>The listener invariant of the modal\<close>

text \<open>The listener that a render with props \<open>p\<close> registers under the identity \<open>i\<close>.\<close>

definition listener_of :: "nat \<Rightarrow> modal_props \<Rightarrow> close_listener" where
  "listener_of i p =
     \<lparr>cl_id = i, cl_isOpen = isOpen p,
      cl_requestCloseOnEscClick = or_default True (requestCloseOnEscClick p),
      cl_onRequestClose = fn_or_noop (onRequestClose p)\<rparr>"

text \<open>
  In a browser the document holds no listener of the component before it is mounted, and
  afterwards exactly the one that the pending cleanup names, closed over the values of
  the last render.
\<close>

definition one_listener :: "modal_state \<Rightarrow> bool" where
  "one_listener s =
     (case prev s of
        None \<Rightarrow> keydown_listeners s = [] \<and> cleanup s = None
      | Some p \<Rightarrow>
          (case cleanup s of
             None \<Rightarrow> False
           | Some i \<Rightarrow> keydown_listeners s = [listener_of i p] \<and> i < next_id s))"

section \<open>The form wrappers: binding, error visibility, the unbound control\<close>

lemma formik_and_name_bound:
  "n \<noteq> [] \<Longrightarrow> formik_and_name (Some ctx) (Some n) = Some (ctx, n)"
  by (simp add: formik_and_name_def)

lemma formik_and_name_unbound:
  "formik = None \<or> name = None \<or> name = Some [] \<Longrightarrow> formik_and_name formik name = None"
  by (auto simp: formik_and_name_def split: option.splits)

lemmas binding_defs =
  FormikTextField_field_def FormikTextField_meta_def
  FormikCheckbox_field_def FormikCheckbox_meta_def
  FormikSwitch_field_def FormikSwitch_meta_def
  FormikCustomTextarea_field_def FormikCustomTextarea_meta_def
  FormikRadioGroup_field_def FormikRadioGroup_meta_def

lemmas render_defs =
  FormikTextField_def FormikCheckbox_def FormikSwitch_def FormikCustomTextarea_def
  FormikRadioGroup_def

lemma el_spread_field_props [simp]:
  "el_value (spread_field_props field props) = spread (Some (fi_value field)) (p_value props)"
  "el_onChange (spread_field_props field props) = spread (Some (fi_onChange field)) (p_onChange props)"
  "el_onBlur (spread_field_props field props) = spread (Some (fi_onBlur field)) (p_onBlur props)"
  "el_checked (spread_field_props field props) = spread (fi_checked field) (p_checked props)"
  "el_other (spread_field_props field props) = p_other props"
  "el_name (spread_field_props field props) = Some (fi_name field)"
  by (simp_all add: spread_field_props_def)

lemma bound_fields:
  assumes "formik = Some ctx" "name = Some n" "n \<noteq> []"
  shows "FormikTextField_field formik name = getFieldProps ctx (FieldName n)"
    "FormikCustomTextarea_field formik name = getFieldProps ctx (FieldName n)"
    "FormikRadioGroup_field formik name = getFieldProps ctx (FieldName n)"
    "FormikCheckbox_field formik name = getFieldProps ctx (FieldConfig n ''checkbox'')"
    "FormikSwitch_field formik name = getFieldProps ctx (FieldConfig n ''checkbox'')"
  using assms by (simp_all add: binding_defs formik_and_name_bound)


lemma unbound_fields:
  assumes "formik = None \<or> name = None \<or> name = Some []"
  shows "FormikTextField_field formik name = default_field name None"
    "FormikCustomTextarea_field formik name = default_field name None"
    "FormikRadioGroup_field formik name = default_field name None"
    "FormikCheckbox_field formik name = default_field name (Some False)"
    "FormikSwitch_field formik name = default_field name (Some False)"
  using formik_and_name_unbound[OF assms] by (simp_all add: binding_defs)

lemma unbound_metas:
  assumes "formik = None \<or> name = None \<or> name = Some []"
  shows "FormikTextField_meta formik name = default_meta"
    "FormikCheckbox_meta formik name = default_meta"
    "FormikSwitch_meta formik name = default_meta"
    "FormikCustomTextarea_meta formik name = default_meta"
    "FormikRadioGroup_meta formik name = default_meta"
  using formik_and_name_unbound[OF assms] by (simp_all add: binding_defs)

lemma text_field_control:
  "el_value (tf_control (FormikTextField formik name tprops))
     = spread (Some (fi_value (FormikTextField_field formik name))) (p_value tprops)"
  "el_onChange (tf_control (FormikTextField formik name tprops))
     = spread (Some (fi_onChange (FormikTextField_field formik name))) (p_onChange tprops)"
  "el_onBlur (tf_control (FormikTextField formik name tprops))
     = spread (Some (fi_onBlur (FormikTextField_field formik name))) (p_onBlur tprops)"
  by (simp_all add: FormikTextField_def Let_def)

lemma textarea_control:
  "el_value (ta_control (FormikCustomTextarea formik name props))
     = spread (Some (fi_value (FormikCustomTextarea_field formik name))) (p_value props)"
  "el_onChange (ta_control (FormikCustomTextarea formik name props))
     = spread (Some (fi_onChange (FormikCustomTextarea_field formik name))) (p_onChange props)"
  "el_onBlur (ta_control (FormikCustomTextarea formik name props))
     = spread (Some (fi_onBlur (FormikCustomTextarea_field formik name))) (p_onBlur props)"
  by (simp_all add: FormikCustomTextarea_def Let_def)

lemma checkbox_control:
  "el_value (cb_control (FormikCheckbox formik name label props))
     = spread (Some (fi_value (FormikCheckbox_field formik name))) (p_value props)"
  "el_onChange (cb_control (FormikCheckbox formik name label props))
     = spread (Some (fi_onChange (FormikCheckbox_field formik name))) (p_onChange props)"
  "el_onBlur (cb_control (FormikCheckbox formik name label props))
     = spread (Some (fi_onBlur (FormikCheckbox_field formik name))) (p_onBlur props)"
  "el_checked (cb_control (FormikCheckbox formik name label props))
     = Some (checked_or_false (FormikCheckbox_field formik name))"
  by (simp_all add: FormikCheckbox_def Let_def)

lemma switch_control:
  "el_value (sw_control (FormikSwitch formik name label placement fcp fclp props))
     = spread (Some (fi_value (FormikSwitch_field formik name))) (p_value props)"
  "el_onChange (sw_control (FormikSwitch formik name label placement fcp fclp props))
     = spread (Some (fi_onChange (FormikSwitch_field formik name))) (p_onChange props)"
  "el_onBlur (sw_control (FormikSwitch formik name label placement fcp fclp props))
     = spread (Some (fi_onBlur (FormikSwitch_field formik name))) (p_onBlur props)"
  "el_checked (sw_control (FormikSwitch formik name label placement fcp fclp props))
     = Some (checked_or_false (FormikSwitch_field formik name))"
  by (simp_all add: FormikSwitch_def Let_def)

text \<open>
  Claim C1, as the code has it. For \<^verbatim>\<open>FormikTextField\<close>, \<^verbatim>\<open>FormikCustomTextarea\<close>,
  \<^verbatim>\<open>FormikCheckbox\<close> and \<^verbatim>\<open>FormikSwitch\<close>: when a form context is present and the
  name is a string that is not empty, the field object and the metadata of the component
  are exactly what \<^verbatim>\<open>getFieldProps\<close> and \<^verbatim>\<open>getFieldMeta\<close> of the context return for
  that name (\<^verbatim>\<open>getFieldProps\<close> is called with \<^verbatim>\<open>{ name, type: 'checkbox' }\<close> by the
  checkbox and the switch). Otherwise, that is with no context, no name or the empty
  name, the field object is the synthesized one (value the empty string, change and blur
  handlers that do nothing, \<^verbatim>\<open>checked: false\<close> for the checkbox and the switch and no
  \<^verbatim>\<open>checked\<close> key for the text controls) and the metadata is the synthesized one
  (\<^verbatim>\<open>touched\<close> false, \<^verbatim>\<open>error\<close> undefined). In both cases the control receives the
  value, the change handler and the blur handler of that field object unless the props of
  the caller carry the same key, which then wins; the checkbox and the switch receive
  \<^verbatim>\<open>checked = field.checked || false\<close> whatever the caller passes.
\<close>

theorem C1_bound_or_default:
  fixes tprops :: text_field_props and props :: control_props
  shows
  "(\<forall>ctx n. formik = Some ctx \<and> name = Some n \<and> n \<noteq> [] \<longrightarrow>
      FormikTextField_field formik name = getFieldProps ctx (FieldName n) \<and>
      FormikCustomTextarea_field formik name = getFieldProps ctx (FieldName n) \<and>
      FormikCheckbox_field formik name = getFieldProps ctx (FieldConfig n ''checkbox'') \<and>
      FormikSwitch_field formik name = getFieldProps ctx (FieldConfig n ''checkbox'') \<and>
      FormikTextField_meta formik name = getFieldMeta ctx n \<and>
      FormikCustomTextarea_meta formik name = getFieldMeta ctx n \<and>
      FormikCheckbox_meta formik name = getFieldMeta ctx n \<and>
      FormikSwitch_meta formik name = getFieldMeta ctx n)
   \<and>
   (formik = None \<or> name = None \<or> name = Some [] \<longrightarrow>
      FormikTextField_field formik name = default_field name None \<and>
      FormikCustomTextarea_field formik name = default_field name None \<and>
      FormikCheckbox_field formik name = default_field name (Some False) \<and>
      FormikSwitch_field formik name = default_field name (Some False) \<and>
      FormikTextField_meta formik name = default_meta \<and>
      FormikCustomTextarea_meta formik name = default_meta \<and>
      FormikCheckbox_meta formik name = default_meta \<and>
      FormikSwitch_meta formik name = default_meta)
   \<and>
   (let tf = tf_control (FormikTextField formik name tprops);
        ff = FormikTextField_field formik name
    in el_value tf = spread (Some (fi_value ff)) (p_value tprops) \<and>
       el_onChange tf = spread (Some (fi_onChange ff)) (p_onChange tprops) \<and>
       el_onBlur tf = spread (Some (fi_onBlur ff)) (p_onBlur tprops))
   \<and>
   (let ta = ta_control (FormikCustomTextarea formik name props);
        ff = FormikCustomTextarea_field formik name
    in el_value ta = spread (Some (fi_value ff)) (p_value props) \<and>
       el_onChange ta = spread (Some (fi_onChange ff)) (p_onChange props) \<and>
       el_onBlur ta = spread (Some (fi_onBlur ff)) (p_onBlur props))
   \<and>
   (let cb = cb_control (FormikCheckbox formik name label props);
        ff = FormikCheckbox_field formik name
    in el_value cb = spread (Some (fi_value ff)) (p_value props) \<and>
       el_onChange cb = spread (Some (fi_onChange ff)) (p_onChange props) \<and>
       el_onBlur cb = spread (Some (fi_onBlur ff)) (p_onBlur props) \<and>
       el_checked cb = Some (case fi_checked ff of None \<Rightarrow> False | Some b \<Rightarrow> b))
   \<and>
   (let sw = sw_control (FormikSwitch formik name label placement fcp fclp props);
        ff = FormikSwitch_field formik name
    in el_value sw = spread (Some (fi_value ff)) (p_value props) \<and>
       el_onChange sw = spread (Some (fi_onChange ff)) (p_onChange props) \<and>
       el_onBlur sw = spread (Some (fi_onBlur ff)) (p_onBlur props) \<and>
       el_checked sw = Some (case fi_checked ff of None \<Rightarrow> False | Some b \<Rightarrow> b))"
proof -
  have a: "\<forall>ctx n. formik = Some ctx \<and> name = Some n \<and> n \<noteq> [] \<longrightarrow>
      FormikTextField_field formik name = getFieldProps ctx (FieldName n) \<and>
      FormikCustomTextarea_field formik name = getFieldProps ctx (FieldName n) \<and>
      FormikCheckbox_field formik name = getFieldProps ctx (FieldConfig n ''checkbox'') \<and>
      FormikSwitch_field formik name = getFieldProps ctx (FieldConfig n ''checkbox'') \<and>
      FormikTextField_meta formik name = getFieldMeta ctx n \<and>
      FormikCustomTextarea_meta formik name = getFieldMeta ctx n \<and>
      FormikCheckbox_meta formik name = getFieldMeta ctx n \<and>
      FormikSwitch_meta formik name = getFieldMeta ctx n"
    by (simp add: binding_defs formik_and_name_bound)
  have b: "formik = None \<or> name = None \<or> name = Some [] \<longrightarrow>
      FormikTextField_field formik name = default_field name None \<and>
      FormikCustomTextarea_field formik name = default_field name None \<and>
      FormikCheckbox_field formik name = default_field name (Some False) \<and>
      FormikSwitch_field formik name = default_field name (Some False) \<and>
      FormikTextField_meta formik name = default_meta \<and>
      FormikCustomTextarea_meta formik name = default_meta \<and>
      FormikCheckbox_meta formik name = default_meta \<and>
      FormikSwitch_meta formik name = default_meta"
    by (simp add: binding_defs formik_and_name_unbound)
  have c: "let tf = tf_control (FormikTextField formik name tprops);
        ff = FormikTextField_field formik name
    in el_value tf = spread (Some (fi_value ff)) (p_value tprops) \<and>
       el_onChange tf = spread (Some (fi_onChange ff)) (p_onChange tprops) \<and>
       el_onBlur tf = spread (Some (fi_onBlur ff)) (p_onBlur tprops)"
    by (simp add: text_field_control Let_def)
  have d: "let ta = ta_control (FormikCustomTextarea formik name props);
        ff = FormikCustomTextarea_field formik name
    in el_value ta = spread (Some (fi_value ff)) (p_value props) \<and>
       el_onChange ta = spread (Some (fi_onChange ff)) (p_onChange props) \<and>
       el_onBlur ta = spread (Some (fi_onBlur ff)) (p_onBlur props)"
    by (simp add: textarea_control Let_def)
  have e: "let cb = cb_control (FormikCheckbox formik name label props);
        ff = FormikCheckbox_field formik name
    in el_value cb = spread (Some (fi_value ff)) (p_value props) \<and>
       el_onChange cb = spread (Some (fi_onChange ff)) (p_onChange props) \<and>
       el_onBlur cb = spread (Some (fi_onBlur ff)) (p_onBlur props) \<and>
       el_checked cb = Some (case fi_checked ff of None \<Rightarrow> False | Some b \<Rightarrow> b)"
    by (simp add: checkbox_control Let_def checked_or_false_def)
  have f: "let sw = sw_control (FormikSwitch formik name label placement fcp fclp props);
        ff = FormikSwitch_field formik name
    in el_value sw = spread (Some (fi_value ff)) (p_value props) \<and>
       el_onChange sw = spread (Some (fi_onChange ff)) (p_onChange props) \<and>
       el_onBlur sw = spread (Some (fi_onBlur ff)) (p_onBlur props) \<and>
       el_checked sw = Some (case fi_checked ff of None \<Rightarrow> False | Some b \<Rightarrow> b)"
    by (simp add: switch_control Let_def checked_or_false_def)
  from a b c d e f show ?thesis by - (intro conjI, assumption+)
qed

text \<open>
  The claim as stated fails in two ways. With a context and the name \<^verbatim>\<open>""\<close>, which is a
  name prop that is supplied, the field object is the synthesized one and not the one of
  the context. With a context, the name \<^verbatim>\<open>email\<close> and a \<^verbatim>\<open>value\<close> among the props of
  the caller, the control receives the value of the caller and not the one of the context.
  Further, the synthesized field object of a text control has no \<^verbatim>\<open>checked\<close> key.
\<close>

theorem C1_counterexample:
  "FormikTextField_field (Some demo_ctx) (Some []) \<noteq> getFieldProps demo_ctx (FieldName [])
   \<and> FormikTextField_field (Some demo_ctx) (Some []) = default_field (Some []) None
   \<and> el_value (tf_control (FormikTextField (Some demo_ctx) (Some ''email'')
        (no_text_props\<lparr>p_value := Some (JStr ''typed'')\<rparr>)))
      \<noteq> Some (fi_value (getFieldProps demo_ctx (FieldName ''email'')))
   \<and> fi_checked (FormikTextField_field None None) = None"
  by (simp add: binding_defs render_defs formik_and_name_def default_field_def demo_ctx_def
      no_text_props_def no_props_def spread_def Let_def name_or_empty_def checked_or_false_def)

text \<open>
  With the example context and the name \<^verbatim>\<open>email\<close> the wrappers are bound; with no
  context and no name they use the synthesized objects.
\<close>

theorem C1_witness:
  "Some demo_ctx = Some demo_ctx \<and> ''email'' \<noteq> []
   \<and> FormikTextField_field (Some demo_ctx) (Some ''email'') = getFieldProps demo_ctx (FieldName ''email'')
   \<and> FormikSwitch_field (Some demo_ctx) (Some ''email'')
        = getFieldProps demo_ctx (FieldConfig ''email'' ''checkbox'')
   \<and> FormikCheckbox_meta (Some demo_ctx) (Some ''email'') = getFieldMeta demo_ctx ''email''
   \<and> el_value (tf_control (FormikTextField (Some demo_ctx) (Some ''email'') no_text_props))
        = Some (JStr ''a@b.c'')
   \<and> el_onChange (tf_control (FormikTextField (Some demo_ctx) (Some ''email'') no_text_props))
        = Some (Ext 1)
   \<and> el_checked (cb_control (FormikCheckbox (Some demo_ctx) (Some ''email'') None no_props))
        = Some True
   \<and> FormikTextField_field None None = default_field None None
   \<and> FormikCheckbox_field None None = default_field None (Some False)
   \<and> FormikCustomTextarea_meta None None = default_meta
   \<and> el_value (ta_control (FormikCustomTextarea None None no_props)) = Some (JStr [])
   \<and> el_onChange (ta_control (FormikCustomTextarea None None no_props)) = Some Noop
   \<and> el_checked (sw_control (FormikSwitch None None None None None None no_props)) = Some False"
proof -
  note b = C1_bound_or_default[of "Some demo_ctx" "Some ''email''" no_text_props no_props None
      None None None]
  note u = C1_bound_or_default[of None None no_text_props no_props None None None None]
  have ne: "''email'' \<noteq> []" by simp
  have g: "fi_value (getFieldProps demo_ctx (FieldName ''email'')) = JStr ''a@b.c''"
    "fi_onChange (getFieldProps demo_ctx (FieldName ''email'')) = Ext 1"
    "fi_checked (getFieldProps demo_ctx (FieldConfig ''email'' ''checkbox'')) = Some True"
    by (simp_all add: demo_ctx_def)
  have n: "p_value no_text_props = None" "p_onChange no_text_props = None"
    "p_value no_props = None" "p_onChange no_props = None"
    by (simp_all add: no_text_props_def no_props_def)
  have d: "fi_value (default_field None c) = JStr []" "fi_onChange (default_field None c) = Noop"
    "fi_checked (default_field None c) = c" for c
    by (simp_all add: default_field_def)
  from b ne have b1:
    "FormikTextField_field (Some demo_ctx) (Some ''email'') = getFieldProps demo_ctx (FieldName ''email'')"
    "FormikSwitch_field (Some demo_ctx) (Some ''email'')
        = getFieldProps demo_ctx (FieldConfig ''email'' ''checkbox'')"
    "FormikCheckbox_field (Some demo_ctx) (Some ''email'')
        = getFieldProps demo_ctx (FieldConfig ''email'' ''checkbox'')"
    "FormikCheckbox_meta (Some demo_ctx) (Some ''email'') = getFieldMeta demo_ctx ''email''"
    by blast+
  from u have u1: "FormikTextField_field None None = default_field None None"
    "FormikCheckbox_field None None = default_field None (Some False)"
    "FormikSwitch_field None None = default_field None (Some False)"
    "FormikCustomTextarea_field None None = default_field None None"
    "FormikCustomTextarea_meta None None = default_meta"
    by blast+
  from b have b2: "el_value (tf_control (FormikTextField (Some demo_ctx) (Some ''email'') no_text_props))
        = spread (Some (fi_value (FormikTextField_field (Some demo_ctx) (Some ''email'')))) (p_value no_text_props)"
     "el_onChange (tf_control (FormikTextField (Some demo_ctx) (Some ''email'') no_text_props))
        = spread (Some (fi_onChange (FormikTextField_field (Some demo_ctx) (Some ''email'')))) (p_onChange no_text_props)"
     "el_checked (cb_control (FormikCheckbox (Some demo_ctx) (Some ''email'') None no_props))
        = Some (case fi_checked (FormikCheckbox_field (Some demo_ctx) (Some ''email'')) of
                  None \<Rightarrow> False | Some b \<Rightarrow> b)"
    unfolding Let_def by blast+
  from u have u2: "el_value (ta_control (FormikCustomTextarea None None no_props))
        = spread (Some (fi_value (FormikCustomTextarea_field None None))) (p_value no_props)"
    "el_onChange (ta_control (FormikCustomTextarea None None no_props))
        = spread (Some (fi_onChange (FormikCustomTextarea_field None None))) (p_onChange no_props)"
    "el_checked (sw_control (FormikSwitch None None None None None None no_props))
        = Some (case fi_checked (FormikSwitch_field None None) of None \<Rightarrow> False | Some b \<Rightarrow> b)"
    unfolding Let_def by blast+
  have b3: "el_value (tf_control (FormikTextField (Some demo_ctx) (Some ''email'') no_text_props))
        = Some (JStr ''a@b.c'')"
     "el_onChange (tf_control (FormikTextField (Some demo_ctx) (Some ''email'') no_text_props))
        = Some (Ext 1)"
     "el_checked (cb_control (FormikCheckbox (Some demo_ctx) (Some ''email'') None no_props))
        = Some True"
    by (simp_all add: b2 b1 g n spread_def)
  have u3: "el_value (ta_control (FormikCustomTextarea None None no_props)) = Some (JStr [])"
    "el_onChange (ta_control (FormikCustomTextarea None None no_props)) = Some Noop"
    "el_checked (sw_control (FormikSwitch None None None None None None no_props)) = Some False"
    by (simp_all add: u2 u1 d n spread_def)
  from refl[of "Some demo_ctx"] ne b1(1) b1(2) b1(4) b3 u1(1) u1(2) u1(5) u3
  show ?thesis by - (intro conjI, assumption+)
qed







text \<open>
  Claim C4 at its failing inputs. With no context and no name, and no props at all, the
  text field receives \<^verbatim>\<open>value = ''\<close> and handlers that do nothing, where the bare
  primitive with the same props receives no \<^verbatim>\<open>value\<close> key; it shows no error. The
  checkbox receives \<^verbatim>\<open>checked = false\<close> although the caller passes
  \<^verbatim>\<open>checked = true\<close>. The radio group drops the \<^verbatim>\<open>onChange\<close> of the caller, and its
  own handler makes no call.
\<close>

theorem C4_unbound_control_is_controlled:
  "tf_control (FormikTextField None None no_text_props)
     = \<lparr>el_name = None, el_value = Some (JStr []), el_onChange = Some Noop,
        el_onBlur = Some Noop, el_checked = None, el_other = []\<rparr>
   \<and> tf_error (FormikTextField None None no_text_props) = None
   \<and> tf_helperText (FormikTextField None None no_text_props) = None
   \<and> el_checked (cb_control (FormikCheckbox None None None
        (no_props\<lparr>p_checked := Some True, p_onChange := Some (Ext 5)\<rparr>))) = Some False
   \<and> el_onChange (rg_control (FormikRadioGroup None None None [] None None
        (no_props\<lparr>p_onChange := Some (Ext 5)\<rparr>))) = None
   \<and> FormikRadioGroup_onChange None None (JStr ''a'') [] = []"
proof -
  have u: "formik_and_name None None = None" by (simp add: formik_and_name_def)
  have f: "FormikTextField_field None None = default_field None None"
    "FormikTextField_meta None None = default_meta"
    "FormikCheckbox_field None None = default_field None (Some False)"
    by (simp_all add: FormikTextField_field_def FormikTextField_meta_def FormikCheckbox_field_def u)
  have se: "\<not> showError default_meta"
    by (simp add: showError_def default_meta_def)
  have a: "tf_control (FormikTextField None None no_text_props)
     = \<lparr>el_name = None, el_value = Some (JStr []), el_onChange = Some Noop,
        el_onBlur = Some Noop, el_checked = None, el_other = []\<rparr>"
    by (simp add: FormikTextField_def Let_def f spread_field_props_def default_field_def
        no_text_props_def spread_def)
  have b: "tf_error (FormikTextField None None no_text_props) = None"
    "tf_helperText (FormikTextField None None no_text_props) = None"
    by (simp_all add: FormikTextField_def Let_def f se no_text_props_def)
  have c: "el_checked (cb_control (FormikCheckbox None None None
        (no_props\<lparr>p_checked := Some True, p_onChange := Some (Ext 5)\<rparr>))) = Some False"
    by (simp add: FormikCheckbox_def Let_def f checked_or_false_def default_field_def)
  have d: "el_onChange (rg_control (FormikRadioGroup None None None [] None None
        (no_props\<lparr>p_onChange := Some (Ext 5)\<rparr>))) = None"
    by (simp add: FormikRadioGroup_def Let_def)
  have e: "FormikRadioGroup_onChange None None (JStr ''a'') [] = []"
    by (simp add: FormikRadioGroup_onChange_def u)
  from a b c d e show ?thesis by - (intro conjI, assumption+)
qed

section \<open>The modal: lifecycle callbacks, dismissal and the key listener\<close>

lemma same_fn_eq: "same_fn f g \<Longrightarrow> f = g"
  by (cases f; cases g) auto

lemma listener_of_unchanged:
  "\<not> listener_deps_changed q p \<Longrightarrow> listener_of i q = listener_of i p"
  by (auto simp: listener_deps_changed_def listener_of_def dest: same_fn_eq)

lemma window_defined_render [simp]: "window_defined (render p s) = window_defined s"
  by (simp add: render_def Modal_effect_keydown_def run_cleanup_def Let_def
      split: option.splits)

lemma prev_render [simp]: "prev (render p s) = Some p"
  by (simp add: render_def Let_def split: option.splits)

lemma one_listener_initial: "one_listener (initial w)"
  by (simp add: one_listener_def initial_def)

lemma one_listener_render:
  assumes "window_defined s" "one_listener s"
  shows "one_listener (render p s)"
proof (cases "prev s")
  case None
  with assms show ?thesis
    by (simp add: one_listener_def render_def Modal_effect_keydown_def listener_of_def Let_def)
next
  case (Some q)
  with assms obtain i where
    i: "cleanup s = Some i" "keydown_listeners s = [listener_of i q]" "i < next_id s"
    by (auto simp: one_listener_def split: option.splits)
  show ?thesis
  proof (cases "listener_deps_changed q p")
    case True
    with Some i assms(1) show ?thesis
      by (simp add: one_listener_def render_def Modal_effect_keydown_def run_cleanup_def
          listener_of_def Let_def)
  next
    case False
    with Some i assms(1) listener_of_unchanged[OF False, of i] show ?thesis
      by (simp add: one_listener_def render_def Let_def)
  qed
qed

lemma renders_snoc: "renders (ps @ [p]) s = render p (renders ps s)"
  by (simp add: renders_def)

lemma window_defined_renders [simp]: "window_defined (renders ps s) = window_defined s"
  by (induction ps arbitrary: s) (simp_all add: renders_def)

lemma one_listener_renders:
  "window_defined s \<Longrightarrow> one_listener s \<Longrightarrow> one_listener (renders ps s)"
proof (induction ps arbitrary: s)
  case Nil
  then show ?case by (simp add: renders_def)
next
  case (Cons p ps)
  have "renders (p # ps) s = renders ps (render p s)" by (simp add: renders_def)
  with Cons one_listener_render[of s p] show ?case by simp
qed

lemma one_listener_after: "one_listener (renders (ps @ [p]) (initial True))"
  by (rule one_listener_renders) (simp_all add: one_listener_initial, simp add: initial_def)

lemma listeners_after_renders:
  "\<exists>i. keydown_listeners (renders (ps @ [p]) (initial True)) = [listener_of i p]
      \<and> cleanup (renders (ps @ [p]) (initial True)) = Some i
      \<and> i < next_id (renders (ps @ [p]) (initial True))"
proof -
  have "prev (renders (ps @ [p]) (initial True)) = Some p"
    by (simp add: renders_snoc)
  with one_listener_after[of ps p] show ?thesis
    by (auto simp: one_listener_def split: option.splits)
qed

lemma invoke_append: "invoke f a t = t @ invoke f a []"
  by (cases f) simp_all

lemma calls_run_cleanup [simp]: "calls (run_cleanup s) = calls s"
  by (simp add: run_cleanup_def split: option.splits)

lemma calls_effect_keydown [simp]: "calls (Modal_effect_keydown p s) = calls s"
  by (simp add: Modal_effect_keydown_def Let_def)

lemma portal_run_cleanup [simp]: "portal (run_cleanup s) = portal s"
  by (simp add: run_cleanup_def split: option.splits)

lemma portal_effect_keydown [simp]: "portal (Modal_effect_keydown p s) = portal s"
  by (simp add: Modal_effect_keydown_def Let_def)

lemma portal_render: "portal (render p s) = Modal (window_defined s) p"
  by (simp add: render_def Let_def split: option.splits)

lemma Modal_closed: "\<not> isOpen p \<Longrightarrow> Modal w p = None"
  by (simp add: Modal_def Let_def)

lemma Modal_open: "isOpen p \<Longrightarrow> Modal True p \<noteq> None"
  by (simp add: Modal_def Let_def)

lemma calls_first_render:
  "prev s = None \<Longrightarrow> calls (render p s) = Modal_effect_openClose p (calls s)"
  by (simp add: render_def Let_def)

lemma calls_isOpen_changed:
  "prev s = Some q \<Longrightarrow> isOpen q \<noteq> isOpen p \<Longrightarrow>
   calls (render p s) = Modal_effect_openClose p (calls s)"
  by (simp add: render_def Let_def openClose_deps_changed_def)

lemma effect_when_open:
  "isOpen p \<Longrightarrow>
   Modal_effect_openClose p t = t @ (case onOpen p of None \<Rightarrow> [] | Some f \<Rightarrow> invoke f [] [])"
  by (auto simp: Modal_effect_openClose_def Let_def invoke_append[of _ _ t] split: option.splits)

lemma effect_when_closed:
  "\<not> isOpen p \<Longrightarrow>
   Modal_effect_openClose p t = t @ (case onClose p of None \<Rightarrow> [] | Some f \<Rightarrow> invoke f [] [])"
  by (auto simp: Modal_effect_openClose_def Let_def invoke_append[of _ _ t] split: option.splits)

lemmas modal_eval = renders_def render_def initial_def Modal_def Modal_effect_openClose_def
  Modal_effect_keydown_def run_cleanup_def openClose_deps_changed_def listener_deps_changed_def
  or_default_def fn_or_noop_def open_props_def closed_props_def Let_def

text \<open>
  The tree that a render with the modal open puts into the portal: the backdrop with the
  two values its click handler closes over, and the frame with the header (the one of the
  caller, or the default one with the title and the close request), the body (the one of
  the caller, or the default one around the children) and the footer (the one of the
  caller, the default one of a confirmation modal, or none).
\<close>

lemma Modal_open_tree:
  "isOpen p \<Longrightarrow>
   Modal True p =
     Some \<lparr>backdrop_class = backdropClassName p,
           backdrop_flag = or_default True (requestCloseOnBackdropClick p),
           backdrop_onRequestClose = fn_or_noop (onRequestClose p),
           modal_class = modalClassName p,
           header =
             (case headerComponent p of
                Some hc \<Rightarrow> CustomHeader (hc (or_default [] (title p)) (fn_or_noop (onRequestClose p)))
              | None \<Rightarrow> Header (headerClassName p) (or_default [] (title p))
                         (fn_or_noop (onRequestClose p))),
           body =
             (case bodyComponent p of
                Some bc \<Rightarrow> CustomBody (bc (or_default RNull (children p))
                                       (fn_or_noop (onRequestClose p)))
              | None \<Rightarrow> Body (bodyClassName p) (or_default RNull (children p))),
           footer =
             (case footerComponent p of
                Some fc \<Rightarrow> CustomFooter (fc (fn_or_noop (onConfirm p)) (fn_or_noop (onCancel p)))
              | None \<Rightarrow>
                  if or_default False (isConfirmationModal p)
                  then Footer (footerClassName p) (fn_or_noop (onConfirm p))
                         (fn_or_noop (onCancel p))
                         (or_default ''Confirm'' (confirmLabel p))
                         (or_default ''Cancel'' (cancelLabel p))
                  else NoFooter)\<rparr>"
  by (simp add: Modal_def Let_def)

text \<open>
  Claim C2. In the render that carries a change of \<^verbatim>\<open>isOpen\<close> from false to true, the
  calls made are exactly one call of \<^verbatim>\<open>onOpen\<close> when it is supplied (and none
  otherwise), and in a browser the portal of the document body holds the modal content:
  the backdrop, and the frame with the header made from the title, the body made from the
  children and the footer, each the one of the caller where the caller supplies it. In
  the render that carries a change from true to false, and in the first render when it is
  closed, the calls made are exactly one call of \<^verbatim>\<open>onClose\<close> when it is supplied, and
  the portal is empty. Whenever \<^verbatim>\<open>isOpen\<close> is false the portal is empty.
\<close>

theorem C2_open_close:
  "(prev s = Some q \<and> \<not> isOpen q \<and> isOpen p \<longrightarrow>
      calls (render p s) = calls s @ (case onOpen p of None \<Rightarrow> [] | Some f \<Rightarrow> invoke f [] [])
      \<and> (onOpen p = Some (Ext g) \<longrightarrow> calls (render p s) = calls s @ [(g, [])])
      \<and> (window_defined s \<longrightarrow>
            portal (render p s) = Modal True p \<and> portal (render p s) \<noteq> None
            \<and> portal (render p s) =
              Some \<lparr>backdrop_class = backdropClassName p,
                    backdrop_flag = or_default True (requestCloseOnBackdropClick p),
                    backdrop_onRequestClose = fn_or_noop (onRequestClose p),
                    modal_class = modalClassName p,
                    header =
                      (case headerComponent p of
                         Some hc \<Rightarrow>
                           CustomHeader (hc (or_default [] (title p)) (fn_or_noop (onRequestClose p)))
                       | None \<Rightarrow> Header (headerClassName p) (or_default [] (title p))
                                  (fn_or_noop (onRequestClose p))),
                    body =
                      (case bodyComponent p of
                         Some bc \<Rightarrow> CustomBody (bc (or_default RNull (children p))
                                                (fn_or_noop (onRequestClose p)))
                       | None \<Rightarrow> Body (bodyClassName p) (or_default RNull (children p))),
                    footer =
                      (case footerComponent p of
                         Some fc \<Rightarrow>
                           CustomFooter (fc (fn_or_noop (onConfirm p)) (fn_or_noop (onCancel p)))
                       | None \<Rightarrow>
                           if or_default False (isConfirmationModal p)
                           then Footer (footerClassName p) (fn_or_noop (onConfirm p))
                                  (fn_or_noop (onCancel p))
                                  (or_default ''Confirm'' (confirmLabel p))
                                  (or_default ''Cancel'' (cancelLabel p))
                           else NoFooter)\<rparr>))
   \<and> ((prev s = None \<or> (prev s = Some q \<and> isOpen q)) \<and> \<not> isOpen p \<longrightarrow>
      calls (render p s) = calls s @ (case onClose p of None \<Rightarrow> [] | Some f \<Rightarrow> invoke f [] [])
      \<and> (onClose p = Some (Ext g) \<longrightarrow> calls (render p s) = calls s @ [(g, [])])
      \<and> portal (render p s) = None)
   \<and> (\<not> isOpen p \<longrightarrow> portal (render p s) = None)"
proof -
  have a: "prev s = Some q \<and> \<not> isOpen q \<and> isOpen p \<longrightarrow>
      calls (render p s) = calls s @ (case onOpen p of None \<Rightarrow> [] | Some f \<Rightarrow> invoke f [] [])
      \<and> (onOpen p = Some (Ext g) \<longrightarrow> calls (render p s) = calls s @ [(g, [])])
      \<and> (window_defined s \<longrightarrow>
            portal (render p s) = Modal True p \<and> portal (render p s) \<noteq> None
            \<and> portal (render p s) =
              Some \<lparr>backdrop_class = backdropClassName p,
                    backdrop_flag = or_default True (requestCloseOnBackdropClick p),
                    backdrop_onRequestClose = fn_or_noop (onRequestClose p),
                    modal_class = modalClassName p,
                    header =
                      (case headerComponent p of
                         Some hc \<Rightarrow>
                           CustomHeader (hc (or_default [] (title p)) (fn_or_noop (onRequestClose p)))
                       | None \<Rightarrow> Header (headerClassName p) (or_default [] (title p))
                                  (fn_or_noop (onRequestClose p))),
                    body =
                      (case bodyComponent p of
                         Some bc \<Rightarrow> CustomBody (bc (or_default RNull (children p))
                                                (fn_or_noop (onRequestClose p)))
                       | None \<Rightarrow> Body (bodyClassName p) (or_default RNull (children p))),
                    footer =
                      (case footerComponent p of
                         Some fc \<Rightarrow>
                           CustomFooter (fc (fn_or_noop (onConfirm p)) (fn_or_noop (onCancel p)))
                       | None \<Rightarrow>
                           if or_default False (isConfirmationModal p)
                           then Footer (footerClassName p) (fn_or_noop (onConfirm p))
                                  (fn_or_noop (onCancel p))
                                  (or_default ''Confirm'' (confirmLabel p))
                                  (or_default ''Cancel'' (cancelLabel p))
                           else NoFooter)\<rparr>)"
  proof (intro impI conjI)
    assume h: "prev s = Some q \<and> \<not> isOpen q \<and> isOpen p"
    then have c: "calls (render p s) = Modal_effect_openClose p (calls s)"
      using calls_isOpen_changed[of s q p] by blast
    from h have o: "isOpen p" by blast
    show "calls (render p s)
            = calls s @ (case onOpen p of None \<Rightarrow> [] | Some f \<Rightarrow> invoke f [] [])"
      using c effect_when_open[OF o, of "calls s"] by simp
    then show "calls (render p s) = calls s @ [(g, [])]" if "onOpen p = Some (Ext g)"
      using that by simp
    show "portal (render p s) = Modal True p" if "window_defined s"
      using that by (simp add: portal_render)
    show "portal (render p s) \<noteq> None" if "window_defined s"
      using that Modal_open[OF o] by (simp add: portal_render)
    show "portal (render p s) =
              Some \<lparr>backdrop_class = backdropClassName p,
                    backdrop_flag = or_default True (requestCloseOnBackdropClick p),
                    backdrop_onRequestClose = fn_or_noop (onRequestClose p),
                    modal_class = modalClassName p,
                    header =
                      (case headerComponent p of
                         Some hc \<Rightarrow>
                           CustomHeader (hc (or_default [] (title p)) (fn_or_noop (onRequestClose p)))
                       | None \<Rightarrow> Header (headerClassName p) (or_default [] (title p))
                                  (fn_or_noop (onRequestClose p))),
                    body =
                      (case bodyComponent p of
                         Some bc \<Rightarrow> CustomBody (bc (or_default RNull (children p))
                                                (fn_or_noop (onRequestClose p)))
                       | None \<Rightarrow> Body (bodyClassName p) (or_default RNull (children p))),
                    footer =
                      (case footerComponent p of
                         Some fc \<Rightarrow>
                           CustomFooter (fc (fn_or_noop (onConfirm p)) (fn_or_noop (onCancel p)))
                       | None \<Rightarrow>
                           if or_default False (isConfirmationModal p)
                           then Footer (footerClassName p) (fn_or_noop (onConfirm p))
                                  (fn_or_noop (onCancel p))
                                  (or_default ''Confirm'' (confirmLabel p))
                                  (or_default ''Cancel'' (cancelLabel p))
                           else NoFooter)\<rparr>" if "window_defined s"
      using that Modal_open_tree[OF o] by (simp only: portal_render)
  qed
  have b: "(prev s = None \<or> (prev s = Some q \<and> isOpen q)) \<and> \<not> isOpen p \<longrightarrow>
      calls (render p s) = calls s @ (case onClose p of None \<Rightarrow> [] | Some f \<Rightarrow> invoke f [] [])
      \<and> (onClose p = Some (Ext g) \<longrightarrow> calls (render p s) = calls s @ [(g, [])])
      \<and> portal (render p s) = None"
    using calls_isOpen_changed[of s q p] calls_first_render[of s p]
      effect_when_closed[of p "calls s"] Modal_closed[of p]
    by (auto simp: portal_render)
  have c: "\<not> isOpen p \<longrightarrow> portal (render p s) = None"
    by (simp add: portal_render Modal_closed)
  from a b c show ?thesis by - (intro conjI, assumption+)
qed

text \<open>
  The component is mounted closed, opened and closed again, with \<^verbatim>\<open>onOpen\<close> the
  function 1 and \<^verbatim>\<open>onClose\<close> the function 2.
\<close>

theorem C2_witness:
  "prev (render closed_props (initial True)) = Some closed_props
   \<and> \<not> isOpen closed_props \<and> isOpen open_props \<and> window_defined (render closed_props (initial True))
   \<and> calls (render closed_props (initial True)) = [(2, [])]
   \<and> calls (render open_props (render closed_props (initial True))) = [(2, []), (1, [])]
   \<and> portal (render open_props (render closed_props (initial True))) \<noteq> None
   \<and> portal (render content_props (render closed_props (initial True)))
       = Some \<lparr>backdrop_class = None, backdrop_flag = True, backdrop_onRequestClose = Ext 3,
               modal_class = None, header = Header None ''My Modal'' (Ext 3),
               body = Body None (RText ''Modal content goes here.''), footer = NoFooter\<rparr>
   \<and> calls (render closed_props (render open_props (render closed_props (initial True))))
       = [(2, []), (1, []), (2, [])]
   \<and> portal (render closed_props (render open_props (render closed_props (initial True)))) = None"
proof -
  let ?s1 = "render closed_props (initial True)"
  let ?s2 = "render open_props ?s1"
  have p0: "prev (initial True) = None" by (simp add: initial_def)
  have c0: "calls (initial True) = []" by (simp add: initial_def)
  have io: "isOpen open_props" "\<not> isOpen closed_props"
    by (simp_all add: open_props_def closed_props_def)
  have cb: "onOpen open_props = Some (Ext 1)" "onClose closed_props = Some (Ext 2)"
    by (simp_all add: open_props_def closed_props_def)
  have w: "window_defined ?s1" "window_defined ?s2" by (simp_all add: initial_def)
  have pr: "prev ?s1 = Some closed_props" "prev ?s2 = Some open_props" by simp_all
  have "calls ?s1 = calls (initial True) @
          (case onClose closed_props of None \<Rightarrow> [] | Some f \<Rightarrow> invoke f [] [])"
    using C2_open_close[where s="initial True" and q=closed_props and p=closed_props] p0 io by blast
  then have s1: "calls ?s1 = [(2, [])]" by (simp add: c0 cb)
  have "calls ?s2 = calls ?s1 @
          (case onOpen open_props of None \<Rightarrow> [] | Some f \<Rightarrow> invoke f [] [])
        \<and> portal ?s2 \<noteq> None"
    using C2_open_close[where s="?s1" and q=closed_props and p=open_props] pr io w by blast
  then have s2: "calls ?s2 = [(2, []), (1, [])]" "portal ?s2 \<noteq> None"
    by (simp_all add: s1 cb)
  have "calls (render closed_props ?s2) = calls ?s2 @
          (case onClose closed_props of None \<Rightarrow> [] | Some f \<Rightarrow> invoke f [] [])
        \<and> portal (render closed_props ?s2) = None"
    using C2_open_close[where s="?s2" and q=open_props and p=closed_props] pr io by blast
  then have s3: "calls (render closed_props ?s2) = [(2, []), (1, []), (2, [])]"
      "portal (render closed_props ?s2) = None"
    by (simp_all add: s2 cb)
  have ioc: "isOpen content_props"
    by (simp add: content_props_def open_props_def closed_props_def)
  have "portal (render content_props ?s1) =
              Some \<lparr>backdrop_class = backdropClassName content_props,
                    backdrop_flag = or_default True (requestCloseOnBackdropClick content_props),
                    backdrop_onRequestClose = fn_or_noop (onRequestClose content_props),
                    modal_class = modalClassName content_props,
                    header =
                      (case headerComponent content_props of
                         Some hc \<Rightarrow>
                           CustomHeader (hc (or_default [] (title content_props))
                                           (fn_or_noop (onRequestClose content_props)))
                       | None \<Rightarrow> Header (headerClassName content_props)
                                  (or_default [] (title content_props))
                                  (fn_or_noop (onRequestClose content_props))),
                    body =
                      (case bodyComponent content_props of
                         Some bc \<Rightarrow> CustomBody (bc (or_default RNull (children content_props))
                                                (fn_or_noop (onRequestClose content_props)))
                       | None \<Rightarrow> Body (bodyClassName content_props)
                                  (or_default RNull (children content_props))),
                    footer =
                      (case footerComponent content_props of
                         Some fc \<Rightarrow>
                           CustomFooter (fc (fn_or_noop (onConfirm content_props))
                                           (fn_or_noop (onCancel content_props)))
                       | None \<Rightarrow>
                           if or_default False (isConfirmationModal content_props)
                           then Footer (footerClassName content_props)
                                  (fn_or_noop (onConfirm content_props))
                                  (fn_or_noop (onCancel content_props))
                                  (or_default ''Confirm'' (confirmLabel content_props))
                                  (or_default ''Cancel'' (cancelLabel content_props))
                           else NoFooter)\<rparr>"
    using C2_open_close[where s="?s1" and q=closed_props and p=content_props] pr(1) io(2) ioc w(1)
    by blast
  then have s4: "portal (render content_props ?s1)
       = Some \<lparr>backdrop_class = None, backdrop_flag = True, backdrop_onRequestClose = Ext 3,
               modal_class = None, header = Header None ''My Modal'' (Ext 3),
               body = Body None (RText ''Modal content goes here.''), footer = NoFooter\<rparr>"
    by (simp add: content_props_def open_props_def closed_props_def or_default_def fn_or_noop_def)
  from pr(1) io(2) io(1) w(1) s1 s2 s4 s3 show ?thesis by - (intro conjI, assumption+)
qed

text \<open>
  Claim C5. After the component was mounted in a browser and rendered any number of
  times, the last render having the modal open: one \<^verbatim>\<open>keydown\<close> event with the key
  \<^verbatim>\<open>Escape\<close> makes exactly one call of \<^verbatim>\<open>onRequestClose\<close> when
  \<^verbatim>\<open>requestCloseOnEscClick\<close> is true (its default), and no call when it is false.
\<close>

theorem C5_escape:
  assumes "s = renders (ps @ [p]) (initial True)" and "isOpen p"
  shows "calls (dispatch_keydown ''Escape'' s) =
           calls s @ (if or_default True (requestCloseOnEscClick p)
                      then invoke (fn_or_noop (onRequestClose p)) [] [] else [])
         \<and> (onRequestClose p = Some (Ext f) \<longrightarrow>
              calls (dispatch_keydown ''Escape'' s) =
                calls s @ (if or_default True (requestCloseOnEscClick p) then [(f, [])] else []))"
proof -
  from listeners_after_renders[of ps p] assms(1)
  obtain i where "keydown_listeners s = [listener_of i p]" by auto
  with assms(2) invoke_append[of "fn_or_noop (onRequestClose p)" "[]" "calls s"]
  have "calls (dispatch_keydown ''Escape'' s) =
           calls s @ (if or_default True (requestCloseOnEscClick p)
                      then invoke (fn_or_noop (onRequestClose p)) [] [] else [])"
    by (simp add: dispatch_keydown_def closeListener_def listener_of_def)
  then show ?thesis by (simp add: fn_or_noop_def)
qed

text \<open>
  Mounted closed, then opened; \<^verbatim>\<open>onRequestClose\<close> is the function 3. With the
  default flag the key adds the call of 3, with the flag false it adds nothing.
\<close>

theorem C5_witness:
  "isOpen open_props
   \<and> calls (renders ([closed_props] @ [open_props]) (initial True)) = [(2, []), (1, [])]
   \<and> calls (dispatch_keydown ''Escape'' (renders ([closed_props] @ [open_props]) (initial True)))
       = [(2, []), (1, []), (3, [])]
   \<and> calls (dispatch_keydown ''Escape''
        (renders ([closed_props] @ [open_props\<lparr>requestCloseOnEscClick := Some False\<rparr>]) (initial True)))
       = [(2, []), (1, [])]"
proof -
  have io: "isOpen open_props" "isOpen (open_props\<lparr>requestCloseOnEscClick := Some False\<rparr>)"
    by (simp_all add: open_props_def closed_props_def)
  have c1: "calls (renders ([closed_props] @ [open_props]) (initial True)) = [(2, []), (1, [])]"
    by (simp add: modal_eval)
  have c2: "calls (renders ([closed_props] @ [open_props\<lparr>requestCloseOnEscClick := Some False\<rparr>])
              (initial True)) = [(2, []), (1, [])]"
    by (simp add: modal_eval)
  have v: "requestCloseOnEscClick open_props = None" "onRequestClose open_props = Some (Ext 3)"
    by (simp_all add: open_props_def closed_props_def)
  have e1: "calls (dispatch_keydown ''Escape'' (renders ([closed_props] @ [open_props]) (initial True)))
       = [(2, []), (1, []), (3, [])]"
    using C5_escape[OF refl io(1), of "[closed_props]" 3] c1 v
    by (simp add: or_default_def fn_or_noop_def)
  have e2: "calls (dispatch_keydown ''Escape''
        (renders ([closed_props] @ [open_props\<lparr>requestCloseOnEscClick := Some False\<rparr>]) (initial True)))
       = [(2, []), (1, [])]"
    using C5_escape[OF refl io(2), of "[closed_props]" 3] c2 v
    by (simp add: or_default_def fn_or_noop_def)
  from io(1) c1 e1 e2 show ?thesis by - (intro conjI, assumption+)
qed

text \<open>
  Claim C6. After a render with the modal open in a browser there is a backdrop, and a
  click on it makes exactly one call of \<^verbatim>\<open>onRequestClose\<close> when
  \<^verbatim>\<open>requestCloseOnBackdropClick\<close> is true (its default) and no call at all when it is
  false. After a render with the modal closed there is no backdrop to click.
\<close>

theorem C6_backdrop:
  "(window_defined s \<and> isOpen p \<longrightarrow>
      map_option calls (click_backdrop (render p s)) =
        Some (calls (render p s) @
              (if or_default True (requestCloseOnBackdropClick p)
               then invoke (fn_or_noop (onRequestClose p)) [] [] else []))
      \<and> (onRequestClose p = Some (Ext f) \<longrightarrow>
           map_option calls (click_backdrop (render p s)) =
             Some (calls (render p s) @
                   (if or_default True (requestCloseOnBackdropClick p) then [(f, [])] else []))))
   \<and> (\<not> isOpen p \<longrightarrow> click_backdrop (render p s) = None)"
  using invoke_append[of "fn_or_noop (onRequestClose p)" "[]" "calls (render p s)"]
  by (simp add: click_backdrop_def portal_render Modal_def Let_def fn_or_noop_def)

theorem C6_witness:
  "window_defined (initial True) \<and> isOpen open_props
   \<and> map_option calls (click_backdrop (render open_props (initial True))) = Some [(1, []), (3, [])]
   \<and> map_option calls (click_backdrop
        (render (open_props\<lparr>requestCloseOnBackdropClick := Some False\<rparr>) (initial True)))
       = Some [(1, [])]
   \<and> click_backdrop (render closed_props (initial True)) = None"
proof -
  have c: "calls (render open_props (initial True)) = [(1, [])]"
     "calls (render (open_props\<lparr>requestCloseOnBackdropClick := Some False\<rparr>) (initial True)) = [(1, [])]"
    by (simp_all add: calls_first_render initial_def Modal_effect_openClose_def open_props_def
        closed_props_def)
  have w: "window_defined (initial True)" by (simp add: initial_def)
  have io: "isOpen open_props" "\<not> isOpen closed_props"
    "isOpen (open_props\<lparr>requestCloseOnBackdropClick := Some False\<rparr>)"
    by (simp_all add: open_props_def closed_props_def)
  have v: "requestCloseOnBackdropClick open_props = None" "onRequestClose open_props = Some (Ext 3)"
    by (simp_all add: open_props_def closed_props_def)
  have v2: "onRequestClose (open_props\<lparr>requestCloseOnBackdropClick := Some False\<rparr>) = Some (Ext 3)"
    by (simp add: open_props_def closed_props_def)
  have k1: "map_option calls (click_backdrop (render open_props (initial True)))
      = Some [(1, []), (3, [])]"
    using C6_backdrop[where s="initial True" and p=open_props and f=3] c w io v
    by (simp add: or_default_def fn_or_noop_def)
  have k2: "map_option calls (click_backdrop
        (render (open_props\<lparr>requestCloseOnBackdropClick := Some False\<rparr>) (initial True)))
       = Some [(1, [])]"
    using C6_backdrop[where s="initial True" and f=3
        and p="open_props\<lparr>requestCloseOnBackdropClick := Some False\<rparr>"] c w io v2
    by (simp add: or_default_def fn_or_noop_def)
  have k3: "click_backdrop (render closed_props (initial True)) = None"
    using C6_backdrop[where s="initial True" and p=closed_props] io by blast
  from w io(1) k1 k2 k3 show ?thesis by - (intro conjI, assumption+)
qed

text \<open>
  Claim C7, as the code has it. The listener is not tied to the open flag: after the
  component was mounted in a browser and rendered any number of times, the document holds
  exactly one \<^verbatim>\<open>keydown\<close> listener of the component, whether the modal is open or
  closed, and it is closed over the values of the last render. Unmounting removes it. A
  render that changes \<^verbatim>\<open>isOpen\<close> removes it and registers a new one. While the modal
  is closed the listener stays registered and makes no call, whatever the key.
\<close>

theorem C7_listener_lifetime:
  "(\<exists>i. keydown_listeners (renders (ps @ [p]) (initial True)) = [listener_of i p])
   \<and> keydown_listeners (unmount (renders (ps @ [p]) (initial True))) = []
   \<and> (isOpen p' \<noteq> isOpen p \<longrightarrow>
        (\<exists>j. keydown_listeners (render p' (renders (ps @ [p]) (initial True))) = [listener_of j p']
             \<and> j \<notin> cl_id ` set (keydown_listeners (renders (ps @ [p]) (initial True)))))
   \<and> (\<not> isOpen p \<longrightarrow>
        calls (dispatch_keydown key (renders (ps @ [p]) (initial True)))
          = calls (renders (ps @ [p]) (initial True)))"
proof -
  let ?s = "renders (ps @ [p]) (initial True)"
  have pr: "prev ?s = Some p" by (simp add: renders_snoc)
  have w: "window_defined ?s" by (simp add: initial_def)
  from listeners_after_renders[of ps p]
  obtain i where
    i: "cleanup ?s = Some i" "keydown_listeners ?s = [listener_of i p]" "i < next_id ?s"
    by auto
  have a: "\<exists>i. keydown_listeners ?s = [listener_of i p]" using i by blast
  have b: "keydown_listeners (unmount ?s) = []"
    using i by (simp add: unmount_def run_cleanup_def listener_of_def)
  have c: "isOpen p' \<noteq> isOpen p \<longrightarrow>
        (\<exists>j. keydown_listeners (render p' ?s) = [listener_of j p']
             \<and> j \<notin> cl_id ` set (keydown_listeners ?s))"
  proof
    assume "isOpen p' \<noteq> isOpen p"
    then have ch: "listener_deps_changed p p'" by (auto simp: listener_deps_changed_def)
    have "keydown_listeners (render p' ?s) = [listener_of (next_id ?s) p']"
      using pr w i ch
      by (simp add: render_def Let_def run_cleanup_def Modal_effect_keydown_def listener_of_def)
    moreover have "next_id ?s \<notin> cl_id ` set (keydown_listeners ?s)"
      using i by (simp add: listener_of_def)
    ultimately show "\<exists>j. keydown_listeners (render p' ?s) = [listener_of j p']
             \<and> j \<notin> cl_id ` set (keydown_listeners ?s)" by blast
  qed
  have d: "\<not> isOpen p \<longrightarrow> calls (dispatch_keydown key ?s) = calls ?s"
    using i by (simp add: dispatch_keydown_def closeListener_def listener_of_def)
  from a b c d show ?thesis by - (intro conjI, assumption+)
qed

text \<open>
  The claim as stated fails: mounted with the modal closed, the document already holds the
  listener.
\<close>

theorem C7_counterexample:
  "\<not> isOpen closed_props
   \<and> keydown_listeners (renders [closed_props] (initial True))
       = [\<lparr>cl_id = 0, cl_isOpen = False, cl_requestCloseOnEscClick = True,
           cl_onRequestClose = Ext 3\<rparr>]"
  by (simp add: modal_eval)

theorem C7_witness:
  "isOpen open_props \<noteq> isOpen closed_props
   \<and> keydown_listeners (renders ([] @ [closed_props]) (initial True)) = [listener_of 0 closed_props]
   \<and> keydown_listeners (unmount (renders ([] @ [closed_props]) (initial True))) = []
   \<and> keydown_listeners (render open_props (renders ([] @ [closed_props]) (initial True)))
       = [listener_of 1 open_props]
   \<and> calls (dispatch_keydown ''Escape'' (renders ([] @ [closed_props]) (initial True))) = [(2, [])]"
proof -
  have io: "isOpen open_props \<noteq> isOpen closed_props" "\<not> isOpen closed_props"
    by (simp_all add: open_props_def closed_props_def)
  have k: "keydown_listeners (renders ([] @ [closed_props]) (initial True)) = [listener_of 0 closed_props]"
    by (simp add: modal_eval listener_of_def)
  have k2: "keydown_listeners (render open_props (renders ([] @ [closed_props]) (initial True)))
       = [listener_of 1 open_props]"
    by (simp add: modal_eval listener_of_def)
  have c: "calls (renders ([] @ [closed_props]) (initial True)) = [(2, [])]"
    by (simp add: modal_eval)
  have u: "keydown_listeners (unmount (renders ([] @ [closed_props]) (initial True))) = []"
    and e: "calls (dispatch_keydown ''Escape'' (renders ([] @ [closed_props]) (initial True)))
          = calls (renders ([] @ [closed_props]) (initial True))"
    using C7_listener_lifetime[of "[]" closed_props open_props "''Escape''"] io by blast+
  from io(1) k u k2 e[unfolded c] show ?thesis by - (intro conjI, assumption+)
qed

section \<open>Breadcrumb, pagination and tabs\<close>

text \<open>
  Claim C8, as the code has it. The guard is the one of \<^verbatim>\<open>CustomBreadcrumb\<close>: when it
  gets an \<^verbatim>\<open>items\<close> that is absent or empty, every render writes the warning to the
  console and returns \<^verbatim>\<open>null\<close>; mounting the component, which renders it twice,
  writes the warning twice and shows nothing. The render has no branch that throws.
\<close>

theorem C8_empty_items:
  "bc_items props = None \<or> bc_items props = Some [] \<longrightarrow>
     CustomBreadcrumb props isMounted = ([empty_items_warning], None)
     \<and> CustomBreadcrumb_mount props = ([empty_items_warning, empty_items_warning], None)"
  by (auto simp: CustomBreadcrumb_def CustomBreadcrumb_mount_def Let_def)

theorem C8_witness:
  "bc_items no_items_props = None
   \<and> CustomBreadcrumb no_items_props False = ([empty_items_warning], None)
   \<and> CustomBreadcrumb (no_items_props\<lparr>bc_items := Some []\<rparr>) True = ([empty_items_warning], None)
   \<and> snd (CustomBreadcrumb_mount (no_items_props\<lparr>bc_items := Some []\<rparr>)) = None"
  using C8_empty_items[of no_items_props False]
    C8_empty_items[of "no_items_props\<lparr>bc_items := Some []\<rparr>" True]
  by (simp add: no_items_props_def)

text \<open>
  The claim as stated, for any component that requires a list of items, fails for
  \<^verbatim>\<open>CustomTabs\<close>: with the empty array it returns an element (the stack with the empty
  tabs and the empty box) and not \<^verbatim>\<open>null\<close>, and with \<^verbatim>\<open>items\<close> absent it throws.
\<close>

theorem C8_counterexample:
  "CustomTabs_mount (tabs_of [])
     = Inr \<lparr>to_stack_direction = ''column'', to_tabs_value = TabNum 0,
            to_tabs_onChange = HandleChange, to_tabs_orientation = ''horizontal'',
            to_tabs = [], to_box_children = []\<rparr>
   \<and> CustomTabs_mount ((tabs_of [])\<lparr>tabs_items := None\<rparr>) = Inl TypeError"
  by (simp add: CustomTabs_mount_def CustomTabs_initial_def CustomTabs_def tabs_of_def
      or_default_def Let_def)

text \<open>
  Claim C9. \<^verbatim>\<open>CustomPagination\<close> has no hook: what it renders is a function of its
  props. The pagination primitive receives the \<^verbatim>\<open>count\<close>, the \<^verbatim>\<open>page\<close> and the
  \<^verbatim>\<open>onChange\<close> of the parent as they are, so the page shown is the \<^verbatim>\<open>page\<close> prop
  and nothing else, and invoking the change handler with a page value calls the
  \<^verbatim>\<open>onChange\<close> of the parent once, with the event and that value. The scenario of the
  claim (\<^verbatim>\<open>count = 10\<close>, \<^verbatim>\<open>page = 3\<close>, page value 4) is the example that follows.
\<close>

theorem C9_pagination:
  "po_count (CustomPagination props) = pg_count props
   \<and> po_page (CustomPagination props) = pg_page props
   \<and> po_onChange (CustomPagination props) = pg_onChange props
   \<and> (pg_onChange props = Some (Ext f) \<longrightarrow>
        invoke_onChange (CustomPagination props) event v t = t @ [(f, [event, JNum v])])
   \<and> (pg_page props' = pg_page props \<longrightarrow>
        po_page (CustomPagination props') = po_page (CustomPagination props))"
  by (simp add: CustomPagination_def invoke_onChange_def)

theorem C9_witness:
  "pg_onChange page3_props = Some (Ext 7)
   \<and> po_count (CustomPagination page3_props) = 10
   \<and> po_page (CustomPagination page3_props) = 3
   \<and> invoke_onChange (CustomPagination page3_props) (JStr ''event'') 4 []
       = [(7, [JStr ''event'', JNum 4])]
   \<and> po_page (CustomPagination (page3_props\<lparr>pg_onChange := None\<rparr>)) = 3"
  using C9_pagination[of page3_props 7 "JStr ''event''" 4 "[]" "page3_props\<lparr>pg_onChange := None\<rparr>"]
  by (simp add: page3_props_def)

lemma shown_map_if:
  "shown (map (\<lambda>item. if P item then Some (g item) else None) items) = map g (filter P items)"
  by (induction items) (simp_all add: shown_def)

text \<open>
  Claim C10. With an empty \<^verbatim>\<open>items\<close> array \<^verbatim>\<open>CustomTabs\<close> does not throw: the
  initial active tab is the number 0, no tab is rendered and the content box has no
  child. With a first item, the initial active tab is its value, or 0 when that value is
  falsy. In every render of an \<^verbatim>\<open>items\<close> array, the contents shown in the box are those
  of exactly the items whose value is the active tab, in their order.
\<close>

theorem C10_tabs:
  "(tabs_items props = Some [] \<longrightarrow>
      CustomTabs_initial props = Inr (TabNum 0)
      \<and> map_sum id to_tabs (CustomTabs_mount props) = Inr []
      \<and> map_sum id to_box_children (CustomTabs_mount props) = Inr [])
   \<and> (tabs_items props = Some (item # rest) \<longrightarrow>
      CustomTabs_initial props =
        Inr (if truthy_tab_value (ti_value item) then ti_value item else TabNum 0))
   \<and> (tabs_items props = Some items \<longrightarrow>
      map_sum id (\<lambda>out. shown (to_box_children out)) (CustomTabs props activeTab)
        = Inr (map ti_content (filter (\<lambda>i. ti_value i = activeTab) items)))"
  by (simp add: CustomTabs_initial_def CustomTabs_mount_def CustomTabs_def Let_def shown_map_if)

theorem C10_witness:
  "tabs_items (tabs_of []) = Some []
   \<and> CustomTabs_initial (tabs_of []) = Inr (TabNum 0)
   \<and> map_sum id to_tabs (CustomTabs_mount (tabs_of [])) = Inr []
   \<and> map_sum id to_box_children (CustomTabs_mount (tabs_of [])) = Inr []
   \<and> CustomTabs_initial (tabs_of two_tabs) = Inr (TabStr ''tab1'')
   \<and> map_sum id (\<lambda>out. shown (to_box_children out)) (CustomTabs (tabs_of two_tabs) (TabStr ''tab2''))
       = Inr [RText ''Content for Tab 2'']"
proof -
  have i: "tabs_items (tabs_of []) = Some []" "tabs_items (tabs_of two_tabs) = Some two_tabs"
    by (simp_all add: tabs_of_def)
  have t: "tabs_items (tabs_of two_tabs) = Some (hd two_tabs # tl two_tabs)"
    by (simp add: tabs_of_def two_tabs_def)
  have a: "CustomTabs_initial (tabs_of []) = Inr (TabNum 0)
    \<and> map_sum id to_tabs (CustomTabs_mount (tabs_of [])) = Inr []
    \<and> map_sum id to_box_children (CustomTabs_mount (tabs_of [])) = Inr []"
    using C10_tabs[of "tabs_of []"] i by blast
  have b: "CustomTabs_initial (tabs_of two_tabs) = Inr (TabStr ''tab1'')"
    using C10_tabs[of "tabs_of two_tabs" "hd two_tabs" "tl two_tabs"] t
    by (simp add: two_tabs_def)
  have c: "map_sum id (\<lambda>out. shown (to_box_children out)) (CustomTabs (tabs_of two_tabs) (TabStr ''tab2''))
       = Inr [RText ''Content for Tab 2'']"
    using C10_tabs[of "tabs_of two_tabs" _ _ two_tabs "TabStr ''tab2''"] i
    by (simp add: two_tabs_def)
  from i a b c show ?thesis by simp
qed

end
